theory Spec2Isabelle
  imports Complex_Main "HOL-Library.Sublist"
begin

section \<open>Sources\<close>

text \<open>
  The development embeds the chat and ingestion services of the repository:
  \<^item> \<^verbatim>\<open>ChatService\<close>, in \<^verbatim>\<open>src/backend/app/services/chat_service.py\<close>;
  \<^item> \<^verbatim>\<open>RAGService\<close>, in \<^verbatim>\<open>src/notebookLM-backend/backend/app/services/document_processor.py\<close>;
  \<^item> \<^verbatim>\<open>DocumentProcessor\<close>, in \<^verbatim>\<open>src/notebookLM-backend/backend/app/services/chat_service.py\<close>;
  \<^item> \<^verbatim>\<open>SupabaseService\<close>, in \<^verbatim>\<open>src/notebookLM-backend/backend/app/services/supabase_service.py\<close>.

  A method keeps its name without the leading underscore; \<^verbatim>\<open>ChatService._update_notebook_memory\<close>
  is \<open>chat_update_notebook_memory\<close>, to tell it from the method of the store interface.
  The long method \<^verbatim>\<open>process_chat\<close> is cut in two, \<open>retrieve_chunks\<close> and
  \<open>answer_turn\<close>, inside its \<^verbatim>\<open>try\<close> block \<open>process_chat_try\<close>.
\<close>

section \<open>Data model\<close>

text \<open>
  The records follow \<^verbatim>\<open>app/models/database.py\<close> and the dictionaries the services
  pass around.  A key that the code reads with \<^verbatim>\<open>d["k"]\<close> is a plain field; a key
  it reads with \<^verbatim>\<open>d.get("k", default)\<close> is an optional field.  Python strings are
  lists of characters, Python integers are \<open>int\<close>.
\<close>

datatype genre = History | Science | Literature | Philosophy | Technology | Other

record book =
  bk_id :: string
  bk_title :: string
  bk_author :: string
  bk_genre :: genre
  bk_file_path :: string
  bk_total_pages :: int

text \<open>A row returned by the \<^verbatim>\<open>match_documents\<close> search, later enriched with the
  title and author of its book.\<close>

record chunk_match =
  cm_book_id :: string
  cm_content :: string
  cm_page_start :: "int option"
  cm_page_end :: "int option"
  cm_book_title :: "string option"
  cm_book_author :: "string option"

text \<open>A page field of a citation holds the chunk's integer, or the string default.\<close>

datatype page_field = PageInt int | PageStr string

record citation =
  ct_book_title :: string
  ct_book_author :: string
  ct_page_start :: page_field
  ct_page_end :: page_field
  ct_content_preview :: string

text \<open>A chunk dictionary built at ingestion time.\<close>

record chunk_metadata =
  md_page_number :: int
  md_chunk_in_page :: int
  md_total_chunks_in_page :: int

record chunk =
  ck_content :: string
  ck_page_start :: int
  ck_page_end :: int
  ck_chunk_index :: int
  ck_metadata :: chunk_metadata
  ck_embedding :: "real list option"

section \<open>Citation extraction\<close>

text \<open>\<^verbatim>\<open>ChatService._extract_citations\<close>: one dictionary per chunk, appended in a loop.\<close>

definition page_or_default :: "int option \<Rightarrow> page_field" where
  "page_or_default p = (case p of None \<Rightarrow> PageStr ''?'' | Some n \<Rightarrow> PageInt n)"

definition content_preview :: "string \<Rightarrow> string" where
  "content_preview s = (if length s > 100 then take 100 s @ ''...'' else s)"

definition make_citation :: "chunk_match \<Rightarrow> citation" where
  "make_citation c =
     \<lparr> ct_book_title = (case cm_book_title c of None \<Rightarrow> ''Unknown Book'' | Some t \<Rightarrow> t),
       ct_book_author = (case cm_book_author c of None \<Rightarrow> ''Unknown Author'' | Some a \<Rightarrow> a),
       ct_page_start = page_or_default (cm_page_start c),
       ct_page_end = page_or_default (cm_page_end c),
       ct_content_preview = content_preview (cm_content c) \<rparr>"

fun extract_citations_loop :: "chunk_match list \<Rightarrow> citation list \<Rightarrow> citation list" where
  "extract_citations_loop [] citations = citations"
| "extract_citations_loop (c # cs) citations =
     extract_citations_loop cs (citations @ [make_citation c])"

definition extract_citations :: "chunk_match list \<Rightarrow> citation list" where
  "extract_citations chunks = extract_citations_loop chunks []"

section \<open>Chunking\<close>

text \<open>
  \<^verbatim>\<open>DocumentProcessor.create_chunks\<close>.  The text splitter is a library object
  (\<^verbatim>\<open>RecursiveCharacterTextSplitter\<close>); its \<^verbatim>\<open>split_text\<close> is a parameter here.
  The two nested loops share the list \<^verbatim>\<open>chunks\<close> and the counter
  \<^verbatim>\<open>chunk_index\<close>, which are threaded through as a pair.
\<close>

fun page_chunks_loop ::
  "int \<Rightarrow> int \<Rightarrow> (nat \<times> string) list \<Rightarrow> chunk list \<times> int \<Rightarrow> chunk list \<times> int" where
  "page_chunks_loop page_num total_in_page [] st = st"
| "page_chunks_loop page_num total_in_page ((i, chunk_text) # rest) (chunks, chunk_index) =
     page_chunks_loop page_num total_in_page rest
       (chunks @ [\<lparr> ck_content = chunk_text,
                    ck_page_start = page_num,
                    ck_page_end = page_num,
                    ck_chunk_index = chunk_index,
                    ck_metadata = \<lparr> md_page_number = page_num,
                                    md_chunk_in_page = int i,
                                    md_total_chunks_in_page = total_in_page \<rparr>,
                    ck_embedding = None \<rparr>],
        chunk_index + 1)"

fun pages_loop ::
  "(string \<Rightarrow> string list) \<Rightarrow> (string \<times> int) list \<Rightarrow> chunk list \<times> int \<Rightarrow> chunk list \<times> int" where
  "pages_loop split_text [] st = st"
| "pages_loop split_text ((page_text, page_num) # pages) st =
     (let page_chunks = split_text page_text
      in pages_loop split_text pages
           (page_chunks_loop page_num (int (length page_chunks))
              (List.enumerate 0 page_chunks) st))"

definition create_chunks :: "(string \<Rightarrow> string list) \<Rightarrow> (string \<times> int) list \<Rightarrow> chunk list" where
  "create_chunks split_text pages = fst (pages_loop split_text pages ([], 0))"

section \<open>Python strings\<close>

text \<open>
  A text is a list of 8-bit characters, one character per code point: \<open>length\<close> is
  Python's \<^verbatim>\<open>len\<close> and \<open>take n\<close> is the slice \<^verbatim>\<open>[:n]\<close>.  A code point below 256
  is its own character.  The one code point above 255 that the source names, the bullet
  U+2022, is carried by the character 0x95 (its Windows-1252 code), which stands aside as the
  C1 control U+0095; neither of the two is white space for Python.  So the model covers the
  texts over the code points below 256 and the bullet.
\<close>

definition bullet :: char where
  "bullet = CHR 0x95"

definition newline :: string where
  "newline = [CHR 0x0A]"

text \<open>\<^verbatim>\<open>str(n)\<close> of an integer, as an f-string renders it.\<close>

definition digit_char :: "nat \<Rightarrow> char" where
  "digit_char d = ''0123456789'' ! d"

fun str_nat :: "nat \<Rightarrow> string" where
  "str_nat n = (if n < 10 then [digit_char n] else str_nat (n div 10) @ [digit_char (n mod 10)])"

declare str_nat.simps [simp del]

definition str_int :: "int \<Rightarrow> string" where
  "str_int i = (if i < 0 then CHR ''-'' # str_nat (nat (- i)) else str_nat (nat i))"

text \<open>\<^verbatim>\<open>sep.join(parts)\<close>.\<close>

fun py_join :: "string \<Rightarrow> string list \<Rightarrow> string" where
  "py_join sep [] = []"
| "py_join sep [x] = x"
| "py_join sep (x # y # rest) = x @ sep @ py_join sep (y # rest)"

text \<open>
  \<^verbatim>\<open>s.split(sep)\<close> for a non-empty separator: the text is scanned from the left, and
  every occurrence found ends the current piece and is skipped as a whole.  Both calls in
  the source pass a literal separator; Python raises on an empty one, which never matches
  here.
\<close>

fun py_split_from :: "string \<Rightarrow> string \<Rightarrow> string \<Rightarrow> string list" where
  "py_split_from sep cur [] = [cur]"
| "py_split_from sep cur (c # cs) =
     (if sep \<noteq> [] \<and> prefix sep (c # cs)
      then cur # py_split_from sep [] (drop (length sep) (c # cs))
      else py_split_from sep (cur @ [c]) cs)"

definition py_split :: "string \<Rightarrow> string \<Rightarrow> string list" where
  "py_split sep s = py_split_from sep [] s"

text \<open>\<^verbatim>\<open>s.strip()\<close>: the white space of Python among the code points below 256.\<close>

definition py_isspace :: "char \<Rightarrow> bool" where
  "py_isspace c = ((of_char c :: nat) \<in> {9, 10, 11, 12, 13, 28, 29, 30, 31, 32, 133, 160})"

definition py_strip :: "string \<Rightarrow> string" where
  "py_strip s = rev (dropWhile py_isspace (rev (dropWhile py_isspace s)))"

text \<open>The number of positions of a text at which \<open>sub\<close> occurs.\<close>

fun occurrences :: "string \<Rightarrow> string \<Rightarrow> nat" where
  "occurrences sub [] = 0"
| "occurrences sub (c # cs) = (if prefix sub (c # cs) then 1 else 0) + occurrences sub cs"

section \<open>External collaborators\<close>

text \<open>
  A Python exception is a value; a call that can raise returns \<open>exn + 'a\<close>, with
  \<open>Inl\<close> for the exception.
\<close>

datatype exn = ValueError string | ProviderError string | IndexError

datatype message = SystemMessage string | HumanMessage string

text \<open>An entry of the conversation history handed to the answer generator.\<close>

record history_entry =
  he_role :: string
  he_content :: string

record notebook =
  nb_id :: string
  nb_user_id :: string
  nb_name :: string
  nb_selected_books :: "string list"
  nb_selected_genres :: "genre list"
  nb_memory_summary :: string
  nb_key_facts :: "string list"
  nb_updated_at :: nat

record chat_message =
  msg_id :: string
  msg_notebook_id :: string
  msg_user_message :: string
  msg_assistant_response :: string
  msg_citations :: "citation list"
  msg_timestamp :: nat

record chat_request =
  req_notebook_id :: string
  req_message :: string
  req_user_id :: string

record chat_response =
  resp_response :: string
  resp_citations :: "citation list"
  resp_memory_summary :: string
  resp_key_facts :: "string list"

text \<open>A request sent to the document store through the Supabase client.\<close>

datatype request =
    ReqNotebookById string string
  | ReqBooksByGenre genre
  | ReqBooksByIds "string list"
  | ReqMatchDocuments "real list" int "string list"
  | ReqChatHistory string nat
  | ReqInsertChatMessage chat_message
  | ReqUpdateNotebook string string "string list"

text \<open>
  Everything outside the repository: which store requests raise, the rows the
  \<^verbatim>\<open>match_documents\<close> procedure returns, the embedding model, the language model, the
  samples of \<^verbatim>\<open>np.random.rand\<close>, and the values of \<^verbatim>\<open>uuid.uuid4()\<close> and
  \<^verbatim>\<open>datetime.utcnow()\<close>.
\<close>

record world =
  w_fails :: "request \<Rightarrow> bool"
  w_match_documents :: "real list \<Rightarrow> int \<Rightarrow> string list \<Rightarrow> chunk_match list"
  w_embed :: "string list \<Rightarrow> exn + real list list"
  w_llm :: "message list \<Rightarrow> exn + string"
  w_random :: "nat \<Rightarrow> real"
  w_uuid4 :: string
  w_utcnow :: nat

text \<open>The tables of the store the chat path reads and writes, and the requests sent so far.\<close>

record store =
  st_books :: "book list"
  st_notebooks :: "notebook list"
  st_chat_messages :: "chat_message list"
  st_requests :: "request list"

definition send :: "request \<Rightarrow> store \<Rightarrow> store" where
  "send r s = s\<lparr> st_requests := st_requests s @ [r] \<rparr>"

section \<open>The answer generator and the memory manager (\<^verbatim>\<open>RAGService\<close>)\<close>

definition system_prompt :: string where
  "system_prompt =
     ''You are an intelligent assistant that helps users understand books and documents. '' @ newline @
     ''        You can only answer questions based on the information provided in the context. '' @ newline @
     ''        Always cite your sources by mentioning the book title and page numbers.'' @ newline @
     ''        If you don'' @ [CHR 0x27] @ ''t have enough information to answer a question, say so clearly.'' @ newline @
     ''        Be helpful, accurate, and concise in your responses.''"

text \<open>\<^verbatim>\<open>np.random.rand(n)\<close>: the next \<open>n\<close> samples.\<close>

definition random_rand :: "world \<Rightarrow> nat \<Rightarrow> real list" where
  "random_rand w n = map (w_random w) [0..<n]"

text \<open>
  \<^verbatim>\<open>RAGService._generate_query_embedding\<close>: the first vector the model yields for the
  one-element batch; any exception of the \<^verbatim>\<open>try\<close> block, the failing index
  \<^verbatim>\<open>[0]\<close> included, is caught and replaced by a random vector.
\<close>

definition first_embedding :: "world \<Rightarrow> string \<Rightarrow> exn + real list" where
  "first_embedding w query =
     (case w_embed w [query] of
        Inl e \<Rightarrow> Inl e
      | Inr [] \<Rightarrow> Inl IndexError
      | Inr (v # _) \<Rightarrow> Inr v)"

definition generate_query_embedding :: "world \<Rightarrow> string \<Rightarrow> exn + real list" where
  "generate_query_embedding w query =
     (case first_embedding w query of
        Inr query_embedding \<Rightarrow> Inr query_embedding
      | Inl e \<Rightarrow> Inr (random_rand w 384))"

text \<open>\<^verbatim>\<open>RAGService.create_context_from_chunks\<close>.\<close>

definition page_str :: "int option \<Rightarrow> string" where
  "page_str p = (case p of None \<Rightarrow> ''?'' | Some n \<Rightarrow> str_int n)"

definition context_part :: "chunk_match \<Rightarrow> string" where
  "context_part c =
     ''[From '' @ (case cm_book_title c of None \<Rightarrow> ''Unknown Book'' | Some t \<Rightarrow> t) @
     '', pages '' @ page_str (cm_page_start c) @ ''-'' @ page_str (cm_page_end c) @ '']'' @ newline @
     cm_content c @ newline"

definition create_context_from_chunks :: "chunk_match list \<Rightarrow> string" where
  "create_context_from_chunks chunks = py_join newline (map context_part chunks)"

text \<open>\<^verbatim>\<open>RAGService.generate_response\<close>.\<close>

record rag_response =
  rr_response :: string
  rr_context_used :: string
  rr_chunks_retrieved :: int

definition history_message :: "history_entry \<Rightarrow> message" where
  "history_message msg =
     (if he_role msg = ''user'' then HumanMessage (he_content msg)
      else SystemMessage (he_content msg))"

definition last5 :: "'a list \<Rightarrow> 'a list" where
  "last5 xs = drop (length xs - 5) xs"

definition query_with_context :: "string \<Rightarrow> string \<Rightarrow> string" where
  "query_with_context query context =
     ''Context information:'' @ newline @ context @ newline @ newline @
     ''User question: '' @ query @ newline @ newline @
     ''Please answer based only on the context provided above. Include citations to specific books and page numbers.''"

definition response_messages :: "string \<Rightarrow> string \<Rightarrow> history_entry list \<Rightarrow> message list" where
  "response_messages query context conversation_history =
     [SystemMessage system_prompt] @
     (if conversation_history \<noteq> [] then map history_message (last5 conversation_history) else []) @
     [HumanMessage (query_with_context query context)]"

definition apology :: string where
  "apology = ''I apologize, but I encountered an error while processing your request. Please try again.''"

definition generate_response :: "world \<Rightarrow> string \<Rightarrow> string \<Rightarrow> history_entry list \<Rightarrow> rag_response" where
  "generate_response w query context conversation_history =
     (case w_llm w (response_messages query context conversation_history) of
        Inr content \<Rightarrow>
          \<lparr> rr_response = content,
            rr_context_used = context,
            rr_chunks_retrieved = int (length (py_split ''[From'' context)) - 1 \<rparr>
      | Inl e \<Rightarrow>
          \<lparr> rr_response = apology, rr_context_used = [], rr_chunks_retrieved = 0 \<rparr>)"

text \<open>\<^verbatim>\<open>RAGService.update_memory_summary\<close>.\<close>

definition update_prompt :: "string \<Rightarrow> string \<Rightarrow> string \<Rightarrow> string" where
  "update_prompt current_summary question answer =
     ''Current summary: '' @ current_summary @ newline @ newline @
     ''New conversation:'' @ newline @
     ''Question: '' @ question @ newline @
     ''Answer: '' @ answer @ newline @ newline @
     ''Please update the summary to include key points from this new conversation. Keep it concise but comprehensive.''"

definition summary_messages :: "string \<Rightarrow> string \<Rightarrow> string \<Rightarrow> message list" where
  "summary_messages current_summary question answer =
     [SystemMessage ''You are a helpful assistant that creates concise summaries.'',
      HumanMessage (update_prompt current_summary question answer)]"

definition update_memory_summary :: "world \<Rightarrow> string \<Rightarrow> string \<Rightarrow> string \<Rightarrow> string" where
  "update_memory_summary w current_summary question answer =
     (case w_llm w (summary_messages current_summary question answer) of
        Inr content \<Rightarrow> content
      | Inl e \<Rightarrow> current_summary)"

text \<open>
  \<^verbatim>\<open>RAGService.extract_key_facts\<close>: the stripped lines of the reply that start with
  a hyphen or with the bullet, at most five of them.
\<close>

definition extract_prompt :: "string \<Rightarrow> string \<Rightarrow> string" where
  "extract_prompt question answer =
     ''From this conversation, extract 3-5 key facts or insights:'' @ newline @ newline @
     ''Question: '' @ question @ newline @
     ''Answer: '' @ answer @ newline @ newline @
     ''Please list the key facts as bullet points.''"

definition facts_messages :: "string \<Rightarrow> string \<Rightarrow> message list" where
  "facts_messages question answer =
     [SystemMessage ''You are a helpful assistant that extracts key facts.'',
      HumanMessage (extract_prompt question answer)]"

definition extract_key_facts :: "world \<Rightarrow> string \<Rightarrow> string \<Rightarrow> string list" where
  "extract_key_facts w question answer =
     (case w_llm w (facts_messages question answer) of
        Inr content \<Rightarrow>
          take 5 (map py_strip
                    (filter (\<lambda>line. prefix ''-'' (py_strip line) \<or> prefix [bullet] (py_strip line))
                       (py_split newline content)))
      | Inl e \<Rightarrow> [])"

section \<open>The store interface (\<^verbatim>\<open>SupabaseService\<close>)\<close>

text \<open>
  Each method sends its request and, unless the request raises, reads or writes the
  tables.  The methods that catch the exception return their default; the saving of a
  chat message raises it again.
\<close>

definition get_books_by_genre :: "world \<Rightarrow> store \<Rightarrow> genre \<Rightarrow> book list \<times> store" where
  "get_books_by_genre w s g =
     (if w_fails w (ReqBooksByGenre g) then ([], send (ReqBooksByGenre g) s)
      else (filter (\<lambda>b. bk_genre b = g) (st_books s), send (ReqBooksByGenre g) s))"

definition get_books_by_ids :: "world \<Rightarrow> store \<Rightarrow> string list \<Rightarrow> book list \<times> store" where
  "get_books_by_ids w s book_ids =
     (if book_ids = [] then ([], s)
      else if w_fails w (ReqBooksByIds book_ids) then ([], send (ReqBooksByIds book_ids) s)
      else (filter (\<lambda>b. bk_id b \<in> set book_ids) (st_books s), send (ReqBooksByIds book_ids) s))"

definition search_chunks_vector ::
  "world \<Rightarrow> store \<Rightarrow> real list \<Rightarrow> string list \<Rightarrow> int \<Rightarrow> chunk_match list \<times> store" where
  "search_chunks_vector w s query_embedding book_ids top_k =
     (if w_fails w (ReqMatchDocuments query_embedding top_k book_ids)
      then ([], send (ReqMatchDocuments query_embedding top_k book_ids) s)
      else (w_match_documents w query_embedding top_k book_ids,
            send (ReqMatchDocuments query_embedding top_k book_ids) s))"

definition get_notebook_by_id :: "world \<Rightarrow> store \<Rightarrow> string \<Rightarrow> string \<Rightarrow> notebook option \<times> store" where
  "get_notebook_by_id w s notebook_id user_id =
     (if w_fails w (ReqNotebookById notebook_id user_id)
      then (None, send (ReqNotebookById notebook_id user_id) s)
      else (case filter (\<lambda>n. nb_id n = notebook_id \<and> (if user_id \<noteq> [] then nb_user_id n = user_id else True))
                   (st_notebooks s) of
              [] \<Rightarrow> None
            | n # _ \<Rightarrow> Some n,
            send (ReqNotebookById notebook_id user_id) s))"

definition update_notebook_memory ::
  "world \<Rightarrow> store \<Rightarrow> string \<Rightarrow> string \<Rightarrow> string list \<Rightarrow> bool \<times> store" where
  "update_notebook_memory w s notebook_id memory_summary key_facts =
     (if w_fails w (ReqUpdateNotebook notebook_id memory_summary key_facts)
      then (False, send (ReqUpdateNotebook notebook_id memory_summary key_facts) s)
      else (filter (\<lambda>n. nb_id n = notebook_id) (st_notebooks s) \<noteq> [],
            send (ReqUpdateNotebook notebook_id memory_summary key_facts)
              (s\<lparr> st_notebooks :=
                    map (\<lambda>n. if nb_id n = notebook_id
                              then n\<lparr> nb_memory_summary := memory_summary,
                                      nb_key_facts := key_facts,
                                      nb_updated_at := w_utcnow w \<rparr>
                              else n)
                        (st_notebooks s) \<rparr>)))"

definition message_record :: "world \<Rightarrow> string \<Rightarrow> string \<Rightarrow> string \<Rightarrow> citation list \<Rightarrow> chat_message" where
  "message_record w notebook_id user_message assistant_response citations =
     \<lparr> msg_id = w_uuid4 w,
       msg_notebook_id = notebook_id,
       msg_user_message = user_message,
       msg_assistant_response = assistant_response,
       msg_citations = citations,
       msg_timestamp = w_utcnow w \<rparr>"

definition save_chat_message ::
  "world \<Rightarrow> store \<Rightarrow> string \<Rightarrow> string \<Rightarrow> string \<Rightarrow> citation list \<Rightarrow> (exn + chat_message) \<times> store" where
  "save_chat_message w s notebook_id user_message assistant_response citations =
     (let row = message_record w notebook_id user_message assistant_response citations
      in if w_fails w (ReqInsertChatMessage row)
         then (Inl (ProviderError ''insert''), send (ReqInsertChatMessage row) s)
         else (Inr row,
               send (ReqInsertChatMessage row)
                 (s\<lparr> st_chat_messages := st_chat_messages s @ [row] \<rparr>)))"

text \<open>The history query orders by ascending timestamp and then limits the rows.\<close>

definition get_chat_history :: "world \<Rightarrow> store \<Rightarrow> string \<Rightarrow> nat \<Rightarrow> chat_message list \<times> store" where
  "get_chat_history w s notebook_id limit =
     (if w_fails w (ReqChatHistory notebook_id limit)
      then ([], send (ReqChatHistory notebook_id limit) s)
      else (take limit (sort_key msg_timestamp
                          (filter (\<lambda>m. msg_notebook_id m = notebook_id) (st_chat_messages s))),
            send (ReqChatHistory notebook_id limit) s))"

section \<open>The chat pipeline (\<^verbatim>\<open>ChatService\<close>)\<close>

text \<open>\<^verbatim>\<open>ChatService._format_chat_history\<close>.\<close>

fun format_chat_history_loop :: "chat_message list \<Rightarrow> history_entry list \<Rightarrow> history_entry list" where
  "format_chat_history_loop [] formatted_history = formatted_history"
| "format_chat_history_loop (msg # rest) formatted_history =
     format_chat_history_loop rest
       (formatted_history @
          [\<lparr> he_role = ''user'', he_content = msg_user_message msg \<rparr>] @
          [\<lparr> he_role = ''assistant'', he_content = msg_assistant_response msg \<rparr>])"

definition format_chat_history :: "chat_message list \<Rightarrow> history_entry list" where
  "format_chat_history chat_history = format_chat_history_loop chat_history []"

text \<open>
  \<^verbatim>\<open>ChatService._update_notebook_memory\<close>.  The summary update catches its own
  failure, so the outer handler of this method has nothing left to catch.
\<close>

definition chat_update_notebook_memory :: "world \<Rightarrow> notebook \<Rightarrow> string \<Rightarrow> string \<Rightarrow> string" where
  "chat_update_notebook_memory w nb question answer =
     update_memory_summary w (nb_memory_summary nb) question answer"

text \<open>
  The candidate book ids of a turn (\<^verbatim>\<open>process_chat\<close>, the lines before the search).
  \<^verbatim>\<open>list(set(xs))\<close> keeps one copy of each element; the order Python gives them is not
  fixed, \<open>remdups\<close> stands for it.
\<close>

fun genre_books_loop :: "world \<Rightarrow> genre list \<Rightarrow> string list \<times> store \<Rightarrow> string list \<times> store" where
  "genre_books_loop w [] st = st"
| "genre_books_loop w (g # genres) (book_ids, s) =
     (case get_books_by_genre w s g of
        (genre_books, s') \<Rightarrow> genre_books_loop w genres (book_ids @ map bk_id genre_books, s'))"

definition candidate_book_ids :: "world \<Rightarrow> store \<Rightarrow> notebook \<Rightarrow> string list \<times> store" where
  "candidate_book_ids w s nb =
     (let book_ids = nb_selected_books nb;
          genres = nb_selected_genres nb
      in if book_ids = [] \<and> genres \<noteq> []
         then (case genre_books_loop w genres (book_ids, s) of
                 (ids, s') \<Rightarrow> (remdups ids, s'))
         else (book_ids, s))"

text \<open>
  Attaching title and author to the matches: one batched lookup for the distinct book ids,
  then a dictionary from id to book in which a later row replaces an earlier one.
\<close>

definition add_book_titles :: "world \<Rightarrow> store \<Rightarrow> chunk_match list \<Rightarrow> chunk_match list \<times> store" where
  "add_book_titles w s relevant_chunks =
     (if relevant_chunks \<noteq> []
      then (case get_books_by_ids w s (remdups (map cm_book_id relevant_chunks)) of
              (books_data, s') \<Rightarrow>
                (map (\<lambda>c. case map_of (rev (map (\<lambda>b. (bk_id b, b)) books_data)) (cm_book_id c) of
                             Some b \<Rightarrow> c\<lparr> cm_book_title := Some (bk_title b),
                                           cm_book_author := Some (bk_author b) \<rparr>
                           | None \<Rightarrow> c)
                     relevant_chunks,
                 s'))
      else (relevant_chunks, s))"

definition no_documents_message :: string where
  "no_documents_message =
     ''I don'' @ [CHR 0x27] @ ''t have access to any documents in this notebook. Please select some books or genres first.''"

definition nothing_relevant_message :: string where
  "nothing_relevant_message =
     ''I couldn'' @ [CHR 0x27] @ ''t find any relevant information in the selected documents to answer your question. Please try rephrasing or ask about a different topic.''"

text \<open>The second half of \<^verbatim>\<open>process_chat\<close>: from the context to the response.\<close>

definition answer_turn ::
  "world \<Rightarrow> store \<Rightarrow> chat_request \<Rightarrow> notebook \<Rightarrow> chunk_match list \<Rightarrow> (exn + chat_response) \<times> store" where
  "answer_turn w s req nb relevant_chunks =
     (let context = create_context_from_chunks relevant_chunks
      in case get_chat_history w s (req_notebook_id req) 10 of
           (chat_history, s1) \<Rightarrow>
             (let rag = generate_response w (req_message req) context (format_chat_history chat_history);
                  citations = extract_citations relevant_chunks;
                  new_memory_summary = chat_update_notebook_memory w nb (req_message req) (rr_response rag);
                  new_key_facts = extract_key_facts w (req_message req) (rr_response rag)
              in case save_chat_message w s1 (req_notebook_id req) (req_message req) (rr_response rag) citations of
                   (Inl e, s2) \<Rightarrow> (Inl e, s2)
                 | (Inr saved, s2) \<Rightarrow>
                     (case update_notebook_memory w s2 (req_notebook_id req) new_memory_summary new_key_facts of
                        (updated, s3) \<Rightarrow>
                          (Inr \<lparr> resp_response = rr_response rag,
                                 resp_citations = citations,
                                 resp_memory_summary = new_memory_summary,
                                 resp_key_facts = new_key_facts \<rparr>,
                           s3))))"

text \<open>
  Values of the second half, named for the statements below: the answer text of the turn
  (\<^verbatim>\<open>rag_response["response"]\<close>), the chat history the turn reads, the message
  sequence its answer generation hands to the LLM, and the chat message it saves.
\<close>

definition turn_answer :: "world \<Rightarrow> store \<Rightarrow> chat_request \<Rightarrow> chunk_match list \<Rightarrow> string" where
  "turn_answer w s req relevant_chunks =
     rr_response
       (generate_response w (req_message req) (create_context_from_chunks relevant_chunks)
          (format_chat_history (fst (get_chat_history w s (req_notebook_id req) 10))))"

definition turn_history :: "world \<Rightarrow> store \<Rightarrow> chat_request \<Rightarrow> chat_message list" where
  "turn_history w s req = fst (get_chat_history w s (req_notebook_id req) 10)"

definition turn_messages :: "world \<Rightarrow> store \<Rightarrow> chat_request \<Rightarrow> chunk_match list \<Rightarrow> message list" where
  "turn_messages w s req relevant_chunks =
     response_messages (req_message req) (create_context_from_chunks relevant_chunks)
       (format_chat_history (turn_history w s req))"

definition turn_message :: "world \<Rightarrow> store \<Rightarrow> chat_request \<Rightarrow> chunk_match list \<Rightarrow> chat_message" where
  "turn_message w s req relevant_chunks =
     message_record w (req_notebook_id req) (req_message req)
       (turn_answer w s req relevant_chunks) (extract_citations relevant_chunks)"

text \<open>
  The first half of \<^verbatim>\<open>process_chat\<close>, up to the retrieved chunks: it raises, returns
  one of the two fixed responses, or goes on with the notebook and its non-empty matches.
\<close>

datatype retrieval = Raised exn | Answered chat_response | Retrieved notebook "chunk_match list"

definition retrieve_chunks :: "world \<Rightarrow> store \<Rightarrow> chat_request \<Rightarrow> retrieval \<times> store" where
  "retrieve_chunks w s req =
     (case get_notebook_by_id w s (req_notebook_id req) (req_user_id req) of
        (None, s1) \<Rightarrow> (Raised (ValueError (''Notebook '' @ req_notebook_id req @ '' not found'')), s1)
      | (Some nb, s1) \<Rightarrow>
          (case candidate_book_ids w s1 nb of
             (book_ids, s2) \<Rightarrow>
               if book_ids = []
               then (Answered \<lparr> resp_response = no_documents_message,
                                 resp_citations = [],
                                 resp_memory_summary = nb_memory_summary nb,
                                 resp_key_facts = nb_key_facts nb \<rparr>,
                     s2)
               else (case generate_query_embedding w (req_message req) of
                       Inl e \<Rightarrow> (Raised e, s2)
                     | Inr query_embedding \<Rightarrow>
                         (case search_chunks_vector w s2 query_embedding book_ids 5 of
                            (found, s3) \<Rightarrow>
                              (case add_book_titles w s3 found of
                                 (relevant_chunks, s4) \<Rightarrow>
                                   if relevant_chunks = []
                                   then (Answered \<lparr> resp_response = nothing_relevant_message,
                                                     resp_citations = [],
                                                     resp_memory_summary = nb_memory_summary nb,
                                                     resp_key_facts = nb_key_facts nb \<rparr>,
                                         s4)
                                   else (Retrieved nb relevant_chunks, s4))))))"

text \<open>The body of the \<^verbatim>\<open>try\<close> block of \<^verbatim>\<open>process_chat\<close>.\<close>

definition process_chat_try :: "world \<Rightarrow> store \<Rightarrow> chat_request \<Rightarrow> (exn + chat_response) \<times> store" where
  "process_chat_try w s req =
     (case retrieve_chunks w s req of
        (Raised e, s') \<Rightarrow> (Inl e, s')
      | (Answered response, s') \<Rightarrow> (Inr response, s')
      | (Retrieved nb relevant_chunks, s') \<Rightarrow> answer_turn w s' req nb relevant_chunks)"

text \<open>\<^verbatim>\<open>ChatService.process_chat\<close>: the handler turns every exception into a response.\<close>

definition process_chat :: "world \<Rightarrow> store \<Rightarrow> chat_request \<Rightarrow> (exn + chat_response) \<times> store" where
  "process_chat w s req =
     (case process_chat_try w s req of
        (Inr response, s') \<Rightarrow> (Inr response, s')
      | (Inl e, s') \<Rightarrow>
          (Inr \<lparr> resp_response = apology,
                 resp_citations = [],
                 resp_memory_summary = [],
                 resp_key_facts = [] \<rparr>,
           s'))"

section \<open>Embedding at ingestion time\<close>

text \<open>
  \<^verbatim>\<open>DocumentProcessor.generate_embeddings\<close>: the handler logs and raises again.  The
  \<^verbatim>\<open>zip\<close> stops at the shorter of the two lists.
\<close>

fun assign_embeddings :: "chunk list \<Rightarrow> real list list \<Rightarrow> chunk list" where
  "assign_embeddings [] embeddings = []"
| "assign_embeddings chunks [] = chunks"
| "assign_embeddings (c # chunks) (e # embeddings) =
     c\<lparr> ck_embedding := Some e \<rparr> # assign_embeddings chunks embeddings"

definition generate_embeddings :: "world \<Rightarrow> chunk list \<Rightarrow> exn + chunk list" where
  "generate_embeddings w chunks =
     (case w_embed w (map ck_content chunks) of
        Inr embeddings \<Rightarrow> Inr (assign_embeddings chunks embeddings)
      | Inl e \<Rightarrow> Inl e)"

section \<open>The document scope of the specification\<close>

text \<open>
  The specification's wording, for comparison with \<open>candidate_book_ids\<close>: the selected
  books together with every book whose genre is selected, each id once.
\<close>

definition effective_scope :: "store \<Rightarrow> notebook \<Rightarrow> string list" where
  "effective_scope s nb =
     remdups (nb_selected_books nb @
              map bk_id (filter (\<lambda>b. bk_genre b \<in> set (nb_selected_genres nb)) (st_books s)))"

text \<open>
  The history block as the specification words it, for comparison with
  \<open>response_messages\<close>: the last five turns of the history, each formatted as its pair of
  entries.
\<close>

definition turnwise_response_messages :: "string \<Rightarrow> string \<Rightarrow> chat_message list \<Rightarrow> message list" where
  "turnwise_response_messages query context chat_history =
     [SystemMessage system_prompt] @
     map history_message (format_chat_history (last5 chat_history)) @
     [HumanMessage (query_with_context query context)]"

text \<open>A request is a search when it calls \<^verbatim>\<open>match_documents\<close>.\<close>

fun is_search :: "request \<Rightarrow> bool" where
  "is_search (ReqMatchDocuments q k ids) = True"
| "is_search r = False"

section \<open>Example data\<close>

definition example_chunk :: chunk_match where
  "example_chunk =
     \<lparr> cm_book_id = ''b1'', cm_content = ''Rome was founded in 753 BC.'',
       cm_page_start = Some 3, cm_page_end = Some 3,
       cm_book_title = None, cm_book_author = None \<rparr>"

definition long_chunk :: chunk_match where
  "long_chunk =
     \<lparr> cm_book_id = ''b2'', cm_content = replicate 101 CHR ''x'',
       cm_page_start = None, cm_page_end = Some 8,
       cm_book_title = Some ''Atoms'', cm_book_author = None \<rparr>"

definition titled_chunk :: chunk_match where
  "titled_chunk = example_chunk\<lparr> cm_book_title := Some ''Notes [From Rome]'' \<rparr>"

definition quoting_chunk :: chunk_match where
  "quoting_chunk = example_chunk\<lparr> cm_content := ''See [From Atoms, pages 1-2] for more.'' \<rparr>"

definition example_world :: world where
  "example_world =
     \<lparr> w_fails = (\<lambda>r. False),
       w_match_documents = (\<lambda>q k ids. [example_chunk]),
       w_embed = (\<lambda>texts. Inr (map (\<lambda>t. [1, 0]) texts)),
       w_llm = (\<lambda>messages. Inr ''- Rome is old''),
       w_random = (\<lambda>i. 0),
       w_uuid4 = ''m9'',
       w_utcnow = 9 \<rparr>"

definition llm_down_world :: world where
  "llm_down_world = example_world\<lparr> w_llm := (\<lambda>messages. Inl (ProviderError ''llm'')) \<rparr>"

definition bullet_world :: world where
  "bullet_world =
     example_world\<lparr> w_llm := (\<lambda>messages. Inr (''Facts:'' @ newline @ '' - one '' @ newline @ bullet # '' two'')) \<rparr>"

fun is_insert :: "request \<Rightarrow> bool" where
  "is_insert (ReqInsertChatMessage m) = True"
| "is_insert r = False"

definition save_down_world :: world where
  "save_down_world = example_world\<lparr> w_fails := is_insert \<rparr>"

definition embed_down_world :: world where
  "embed_down_world = example_world\<lparr> w_embed := (\<lambda>texts. Inl (ProviderError ''embed'')) \<rparr>"

definition example_books :: "book list" where
  "example_books =
     [\<lparr> bk_id = ''b1'', bk_title = ''Origins'', bk_author = ''Ann'', bk_genre = History,
        bk_file_path = ''a.pdf'', bk_total_pages = 10 \<rparr>,
      \<lparr> bk_id = ''b2'', bk_title = ''Atoms'', bk_author = ''Bob'', bk_genre = Science,
        bk_file_path = ''b.pdf'', bk_total_pages = 20 \<rparr>]"

definition example_notebook :: notebook where
  "example_notebook =
     \<lparr> nb_id = ''n1'', nb_user_id = ''u1'', nb_name = ''mixed'',
       nb_selected_books = [''b1''], nb_selected_genres = [Science],
       nb_memory_summary = ''old summary'', nb_key_facts = [''- old fact''],
       nb_updated_at = 1 \<rparr>"

definition empty_notebook :: notebook where
  "empty_notebook =
     \<lparr> nb_id = ''n0'', nb_user_id = ''u1'', nb_name = ''empty'',
       nb_selected_books = [], nb_selected_genres = [],
       nb_memory_summary = ''old summary'', nb_key_facts = [''- old fact''],
       nb_updated_at = 1 \<rparr>"

definition genre_notebook :: notebook where
  "genre_notebook =
     \<lparr> nb_id = ''n2'', nb_user_id = ''u1'', nb_name = ''science'',
       nb_selected_books = [], nb_selected_genres = [Science],
       nb_memory_summary = [], nb_key_facts = [],
       nb_updated_at = 1 \<rparr>"

definition example_turn :: "string \<Rightarrow> nat \<Rightarrow> chat_message" where
  "example_turn tag k =
     \<lparr> msg_id = ''m'' @ tag, msg_notebook_id = ''n1'',
       msg_user_message = ''q'' @ tag, msg_assistant_response = ''a'' @ tag,
       msg_citations = [], msg_timestamp = k \<rparr>"

definition example_store :: store where
  "example_store =
     \<lparr> st_books = example_books,
       st_notebooks = [example_notebook, empty_notebook, genre_notebook],
       st_chat_messages = [example_turn ''1'' 1, example_turn ''2'' 2, example_turn ''3'' 3],
       st_requests = [] \<rparr>"

definition example_request :: chat_request where
  "example_request = \<lparr> req_notebook_id = ''n1'', req_message = ''When?'', req_user_id = ''u1'' \<rparr>"

definition empty_request :: chat_request where
  "empty_request = \<lparr> req_notebook_id = ''n0'', req_message = ''When?'', req_user_id = ''u1'' \<rparr>"

section \<open>Properties of citation extraction\<close>

lemma extract_citations_loop_map:
  "extract_citations_loop cs acc = acc @ map make_citation cs"
  by (induction cs arbitrary: acc) simp_all

lemma extract_citations_map: "extract_citations cs = map make_citation cs"
  by (simp add: extract_citations_def extract_citations_loop_map)

text \<open>
  C8. Citation extraction emits exactly one citation per chunk, in the order of the chunks.
  The title defaults to "Unknown Book", the author to "Unknown Author" and each page field
  to "?" when the chunk lacks it.  The preview is the content itself when the content has
  at most 100 characters, and its first 100 characters followed by "..." when it is longer.
\<close>

theorem extract_citations_one_per_chunk:
  "length (extract_citations cs) = length cs \<and>
   (\<forall>i < length cs.
      ct_book_title (extract_citations cs ! i) =
        (case cm_book_title (cs ! i) of None \<Rightarrow> ''Unknown Book'' | Some t \<Rightarrow> t) \<and>
      ct_book_author (extract_citations cs ! i) =
        (case cm_book_author (cs ! i) of None \<Rightarrow> ''Unknown Author'' | Some a \<Rightarrow> a) \<and>
      ct_page_start (extract_citations cs ! i) =
        (case cm_page_start (cs ! i) of None \<Rightarrow> PageStr ''?'' | Some n \<Rightarrow> PageInt n) \<and>
      ct_page_end (extract_citations cs ! i) =
        (case cm_page_end (cs ! i) of None \<Rightarrow> PageStr ''?'' | Some n \<Rightarrow> PageInt n) \<and>
      (length (cm_content (cs ! i)) \<le> 100 \<longrightarrow>
         ct_content_preview (extract_citations cs ! i) = cm_content (cs ! i)) \<and>
      (length (cm_content (cs ! i)) > 100 \<longrightarrow>
         ct_content_preview (extract_citations cs ! i) = take 100 (cm_content (cs ! i)) @ ''...''))"
  by (simp add: extract_citations_map make_citation_def page_or_default_def content_preview_def)

theorem extract_citations_one_per_chunk_witness:
  "length (extract_citations [example_chunk, long_chunk]) = 2 \<and>
   ct_book_title (extract_citations [example_chunk, long_chunk] ! 0) = ''Unknown Book'' \<and>
   ct_book_author (extract_citations [example_chunk, long_chunk] ! 1) = ''Unknown Author'' \<and>
   ct_book_title (extract_citations [example_chunk, long_chunk] ! 1) = ''Atoms'' \<and>
   ct_page_start (extract_citations [example_chunk, long_chunk] ! 0) = PageInt 3 \<and>
   ct_page_start (extract_citations [example_chunk, long_chunk] ! 1) = PageStr ''?'' \<and>
   ct_content_preview (extract_citations [example_chunk, long_chunk] ! 0) = ''Rome was founded in 753 BC.'' \<and>
   ct_content_preview (extract_citations [example_chunk, long_chunk] ! 1) = replicate 100 CHR ''x'' @ ''...''"
proof -
  let ?cs = "[example_chunk, long_chunk]"
  note len = extract_citations_one_per_chunk [of ?cs, THEN conjunct1]
  note c0 = extract_citations_one_per_chunk [of ?cs, THEN conjunct2, rule_format, of 0]
  note c1 = extract_citations_one_per_chunk [of ?cs, THEN conjunct2, rule_format, of 1]
  show ?thesis
    using len c0 c1 by (simp add: example_chunk_def long_chunk_def)
qed

section \<open>Properties of chunking\<close>

lemma page_chunks_loop_indices:
  "map ck_chunk_index (fst (page_chunks_loop p t xs (cs, k))) =
     map ck_chunk_index cs @ map (\<lambda>j. k + int j) [0..<length xs]"
proof (induction xs arbitrary: cs k)
  case Nil
  then show ?case by simp
next
  case (Cons x xs)
  obtain i piece where x: "x = (i, piece)" by (cases x)
  have "map (\<lambda>j. k + int j) [0..<Suc (length xs)] =
        k # map (\<lambda>j. k + 1 + int j) [0..<length xs]"
    by (simp add: upt_conv_Cons map_Suc_upt [symmetric] del: upt_Suc)
  with Cons.IH x show ?case by simp
qed

lemma page_chunks_loop_counter:
  "snd (page_chunks_loop p t xs (cs, k)) = k + int (length xs)"
  by (induction xs arbitrary: cs k) auto

lemma page_chunks_loop_length:
  "length (fst (page_chunks_loop p t xs (cs, k))) = length cs + length xs"
  by (induction xs arbitrary: cs k) auto

lemma map_int_upt_append:
  "map int [0..<m] @ map (\<lambda>j. int m + int j) [0..<n] = map int [0..<m + n]"
  by (induction n) simp_all

lemma pages_loop_invariant:
  "k = int (length cs) \<Longrightarrow> map ck_chunk_index cs = map int [0..<length cs] \<Longrightarrow>
   (let r = pages_loop sp pages (cs, k) in
      map ck_chunk_index (fst r) = map int [0..<length (fst r)] \<and>
      length (fst r) = length cs + sum_list (map (\<lambda>(t, p). length (sp t)) pages))"
proof (induction pages arbitrary: cs k)
  case Nil
  then show ?case by simp
next
  case (Cons pg pages)
  obtain ptext p where pg: "pg = (ptext, p)" by (cases pg)
  let ?xs = "List.enumerate 0 (sp ptext)"
  let ?st = "page_chunks_loop p (int (length (sp ptext))) ?xs (cs, k)"
  have len: "length (fst ?st) = length cs + length (sp ptext)"
    by (simp add: page_chunks_loop_length)
  have cnt: "snd ?st = int (length (fst ?st))"
    using Cons.prems(1) len by (simp add: page_chunks_loop_counter)
  have "map ck_chunk_index (fst ?st) =
        map int [0..<length cs] @ map (\<lambda>j. int (length cs) + int j) [0..<length (sp ptext)]"
    using Cons.prems by (simp add: page_chunks_loop_indices)
  also have "\<dots> = map int [0..<length cs + length (sp ptext)]"
    by (rule map_int_upt_append)
  finally have idx: "map ck_chunk_index (fst ?st) = map int [0..<length (fst ?st)]"
    by (simp add: len)
  from Cons.IH [of "snd ?st" "fst ?st", OF cnt idx] len pg
  show ?case by (simp add: Let_def)
qed

text \<open>
  C6. For every sequence of pages the chunk records carry the indices 0, 1, 2, ... in
  emission order: unique, contiguous from 0 and strictly increasing.  The counter runs
  across the whole document, so the number of indices is the total number of pieces of
  all pages and no page restarts at 0.
\<close>

theorem create_chunks_index_contiguous:
  "map ck_chunk_index (create_chunks split_text pages) =
     map int [0..<length (create_chunks split_text pages)] \<and>
   distinct (map ck_chunk_index (create_chunks split_text pages)) \<and>
   sorted_wrt (<) (map ck_chunk_index (create_chunks split_text pages)) \<and>
   length (create_chunks split_text pages) =
     sum_list (map (\<lambda>(page_text, page_num). length (split_text page_text)) pages)"
proof -
  from pages_loop_invariant [of 0 "[]" split_text pages]
  have idx: "map ck_chunk_index (create_chunks split_text pages) =
               map int [0..<length (create_chunks split_text pages)]"
    and len: "length (create_chunks split_text pages) =
               sum_list (map (\<lambda>(page_text, page_num). length (split_text page_text)) pages)"
    by (simp_all add: create_chunks_def Let_def)
  have "distinct (map int [0..<length (create_chunks split_text pages)])"
    by (simp add: distinct_map)
  moreover have "sorted_wrt (<) (map int [0..<length (create_chunks split_text pages)])"
    by (simp add: sorted_wrt_map)
  ultimately show ?thesis
    using idx len by (simp only: simp_thms)
qed

section \<open>Properties of the embedder\<close>

lemma random_rand_length: "length (random_rand w n) = n"
  by (simp add: random_rand_def)

text \<open>
  C7. Embedding failures are handled asymmetrically.  Generating the embedding of a query
  never raises, and when the embedding call fails the result is a fallback vector of
  dimension 384.  Generating the embeddings of a batch of chunks at ingestion time raises
  the failure of the embedding call again.
\<close>

theorem query_embedding_degrades_ingestion_raises:
  "(\<exists>v. generate_query_embedding w query = Inr v) \<and>
   (\<forall>e. w_embed w [query] = Inl e \<longrightarrow>
        (\<exists>v. generate_query_embedding w query = Inr v \<and> length v = 384)) \<and>
   (\<forall>e. w_embed w (map ck_content chunks) = Inl e \<longrightarrow> generate_embeddings w chunks = Inl e)"
proof (intro conjI allI impI)
  show "\<exists>v. generate_query_embedding w query = Inr v"
    by (simp add: generate_query_embedding_def split: sum.split)
next
  fix e assume "w_embed w [query] = Inl e"
  then have "generate_query_embedding w query = Inr (random_rand w 384)"
    by (simp add: generate_query_embedding_def first_embedding_def)
  then show "\<exists>v. generate_query_embedding w query = Inr v \<and> length v = 384"
    by (simp add: random_rand_length)
next
  fix e assume "w_embed w (map ck_content chunks) = Inl e"
  then show "generate_embeddings w chunks = Inl e"
    by (simp add: generate_embeddings_def)
qed

theorem query_embedding_degrades_ingestion_raises_witness:
  "(\<exists>v. generate_query_embedding embed_down_world ''When?'' = Inr v \<and> length v = 384) \<and>
   generate_embeddings embed_down_world (create_chunks (\<lambda>t. [t]) [(''page one'', 1)]) =
     Inl (ProviderError ''embed'')"
  using query_embedding_degrades_ingestion_raises
          [of embed_down_world "''When?''" "create_chunks (\<lambda>t. [t]) [(''page one'', 1)]"]
  by (simp add: embed_down_world_def example_world_def)

section \<open>Properties of the candidate book ids\<close>

lemma genre_books_loop_result:
  "genre_books_loop w gs (ids, s) =
     (ids @ concat (map (\<lambda>g. if w_fails w (ReqBooksByGenre g) then []
                                 else map bk_id (filter (\<lambda>b. bk_genre b = g) (st_books s))) gs),
      s\<lparr> st_requests := st_requests s @ map ReqBooksByGenre gs \<rparr>)"
proof (induction gs arbitrary: ids s)
  case Nil
  then show ?case by simp
next
  case (Cons g gs)
  show ?case
    by (simp add: get_books_by_genre_def send_def Cons.IH cong: if_cong)
qed

lemma candidate_book_ids_store:
  "snd (candidate_book_ids w s nb) =
     (if nb_selected_books nb = [] \<and> nb_selected_genres nb \<noteq> []
      then s\<lparr> st_requests := st_requests s @ map ReqBooksByGenre (nb_selected_genres nb) \<rparr>
      else s)"
  by (simp add: candidate_book_ids_def Let_def genre_books_loop_result)

text \<open>
  C1, as the code has it.  When the notebook selects books, the candidate ids of the turn
  are exactly its selected books, and its genres are not consulted.  When it selects no
  book and every genre lookup succeeds, the candidate ids are the ids of the books whose
  genre is selected, each once; in that case they are the effective document scope.
\<close>

theorem candidates_are_books_else_genres:
  "(nb_selected_books nb \<noteq> [] \<longrightarrow>
      fst (candidate_book_ids w s nb) = nb_selected_books nb) \<and>
   (nb_selected_books nb = [] \<longrightarrow>
      (\<forall>g \<in> set (nb_selected_genres nb). \<not> w_fails w (ReqBooksByGenre g)) \<longrightarrow>
      set (fst (candidate_book_ids w s nb)) = set (effective_scope s nb) \<and>
      distinct (fst (candidate_book_ids w s nb))) \<and>
   (nb_selected_genres nb = [] \<longrightarrow>
      set (fst (candidate_book_ids w s nb)) = set (effective_scope s nb))"
proof (intro conjI impI)
  assume "nb_selected_books nb \<noteq> []"
  then show "fst (candidate_book_ids w s nb) = nb_selected_books nb"
    by (simp add: candidate_book_ids_def Let_def)
next
  assume "nb_selected_genres nb = []"
  then show "set (fst (candidate_book_ids w s nb)) = set (effective_scope s nb)"
    by (simp add: candidate_book_ids_def effective_scope_def Let_def)
next
  assume empty: "nb_selected_books nb = []"
    and ok: "\<forall>g \<in> set (nb_selected_genres nb). \<not> w_fails w (ReqBooksByGenre g)"
  have ids: "fst (candidate_book_ids w s nb) =
      (if nb_selected_genres nb = [] then []
       else remdups (concat (map (\<lambda>g. map bk_id (filter (\<lambda>b. bk_genre b = g) (st_books s)))
                                 (nb_selected_genres nb))))"
    using empty ok
    by (auto simp add: candidate_book_ids_def Let_def genre_books_loop_result
             intro!: arg_cong [where f = remdups] arg_cong [where f = concat])
  show "set (fst (candidate_book_ids w s nb)) = set (effective_scope s nb)"
    unfolding ids using empty by (auto simp add: effective_scope_def)
  show "distinct (fst (candidate_book_ids w s nb))"
    unfolding ids by simp
qed

theorem candidates_are_books_else_genres_witness:
  "fst (candidate_book_ids example_world example_store example_notebook) = [''b1''] \<and>
   set (fst (candidate_book_ids example_world example_store genre_notebook)) = {''b2''} \<and>
   set (effective_scope example_store genre_notebook) = {''b2''}"
proof -
  have a: "nb_selected_books example_notebook \<noteq> []"
    by (simp add: example_notebook_def)
  have b: "nb_selected_books genre_notebook = []"
    by (simp add: genre_notebook_def)
  have c: "\<forall>g \<in> set (nb_selected_genres genre_notebook). \<not> w_fails example_world (ReqBooksByGenre g)"
    by (simp add: example_world_def)
  have d: "set (effective_scope example_store genre_notebook) = {''b2''}"
    by (simp add: effective_scope_def example_store_def genre_notebook_def example_books_def)
  from candidates_are_books_else_genres [of example_notebook example_world example_store] a
  have "fst (candidate_book_ids example_world example_store example_notebook) = [''b1'']"
    by (simp add: example_notebook_def)
  moreover
  from candidates_are_books_else_genres [of genre_notebook example_world example_store] b c d
  have "set (fst (candidate_book_ids example_world example_store genre_notebook)) = {''b2''}"
    by simp
  ultimately show ?thesis using d by simp
qed

text \<open>
  The union with the books of the selected genres does not hold in general: for a notebook
  that selects the book b1 and the genre of another book b2, the candidates are b1 alone,
  the effective scope holds both.
\<close>

theorem candidates_counterexample:
  "set (fst (candidate_book_ids example_world example_store example_notebook)) = {''b1''} \<and>
   set (effective_scope example_store example_notebook) = {''b1'', ''b2''} \<and>
   set (fst (candidate_book_ids example_world example_store example_notebook)) \<noteq>
     set (effective_scope example_store example_notebook)"
  by (simp add: candidate_book_ids_def effective_scope_def example_store_def
        example_notebook_def example_books_def Let_def)

section \<open>Properties of the search\<close>

lemma search_chunks_vector_sends:
  "st_requests (snd (search_chunks_vector w s q ids k)) = st_requests s @ [ReqMatchDocuments q k ids]"
  by (simp add: search_chunks_vector_def send_def)

lemma get_notebook_by_id_store:
  "snd (get_notebook_by_id w s nid uid) = s\<lparr> st_requests := st_requests s @ [ReqNotebookById nid uid] \<rparr>"
  by (simp add: get_notebook_by_id_def send_def)

lemma retrieve_chunks_no_candidates:
  assumes "fst (get_notebook_by_id w s (req_notebook_id req) (req_user_id req)) = Some nb"
    and "fst (candidate_book_ids w (snd (get_notebook_by_id w s (req_notebook_id req) (req_user_id req))) nb) = []"
  shows "retrieve_chunks w s req =
           (Answered \<lparr> resp_response = no_documents_message,
                        resp_citations = [],
                        resp_memory_summary = nb_memory_summary nb,
                        resp_key_facts = nb_key_facts nb \<rparr>,
            snd (candidate_book_ids w (snd (get_notebook_by_id w s (req_notebook_id req) (req_user_id req))) nb))"
  using assms by (simp add: retrieve_chunks_def split_beta)

lemma process_chat_no_candidates:
  assumes "fst (get_notebook_by_id w s (req_notebook_id req) (req_user_id req)) = Some nb"
    and "fst (candidate_book_ids w (snd (get_notebook_by_id w s (req_notebook_id req) (req_user_id req))) nb) = []"
  shows "process_chat w s req =
           (Inr \<lparr> resp_response = no_documents_message,
                   resp_citations = [],
                   resp_memory_summary = nb_memory_summary nb,
                   resp_key_facts = nb_key_facts nb \<rparr>,
            snd (candidate_book_ids w (snd (get_notebook_by_id w s (req_notebook_id req) (req_user_id req))) nb))"
  by (simp add: process_chat_def process_chat_try_def retrieve_chunks_no_candidates [OF assms])

text \<open>
  C2, as the code has it.  The search operation sends its \<^verbatim>\<open>match_documents\<close> request
  for every candidate list, the empty one included.  The guard is in the chat turn: when the
  candidate ids of a turn are empty, the turn answers with the no-documents message and no
  citations, and sends no search request.
\<close>

theorem empty_candidates_never_searched:
  "st_requests (snd (search_chunks_vector w s q ids k)) = st_requests s @ [ReqMatchDocuments q k ids] \<and>
   (fst (get_notebook_by_id w s (req_notebook_id req) (req_user_id req)) = Some nb \<longrightarrow>
    fst (candidate_book_ids w (snd (get_notebook_by_id w s (req_notebook_id req) (req_user_id req))) nb) = [] \<longrightarrow>
      resp_citations (projr (fst (process_chat w s req))) = [] \<and>
      resp_response (projr (fst (process_chat w s req))) = no_documents_message \<and>
      filter is_search (st_requests (snd (process_chat w s req))) = filter is_search (st_requests s))"
proof (intro conjI impI)
  show "st_requests (snd (search_chunks_vector w s q ids k)) = st_requests s @ [ReqMatchDocuments q k ids]"
    by (rule search_chunks_vector_sends)
next
  assume a: "fst (get_notebook_by_id w s (req_notebook_id req) (req_user_id req)) = Some nb"
    and b: "fst (candidate_book_ids w (snd (get_notebook_by_id w s (req_notebook_id req) (req_user_id req))) nb) = []"
  note p = process_chat_no_candidates [OF a b]
  show "resp_citations (projr (fst (process_chat w s req))) = []"
    by (simp add: p)
  show "resp_response (projr (fst (process_chat w s req))) = no_documents_message"
    by (simp add: p)
  show "filter is_search (st_requests (snd (process_chat w s req))) = filter is_search (st_requests s)"
    by (simp add: p candidate_book_ids_store get_notebook_by_id_store filter_map comp_def)
qed

theorem empty_candidates_never_searched_witness:
  "resp_citations (projr (fst (process_chat example_world example_store empty_request))) = [] \<and>
   resp_response (projr (fst (process_chat example_world example_store empty_request))) = no_documents_message \<and>
   filter is_search (st_requests (snd (process_chat example_world example_store empty_request))) = []"
proof -
  have a: "fst (get_notebook_by_id example_world example_store (req_notebook_id empty_request)
             (req_user_id empty_request)) = Some empty_notebook"
    by (simp add: get_notebook_by_id_def example_world_def example_store_def empty_request_def
          example_notebook_def empty_notebook_def genre_notebook_def)
  have b: "fst (candidate_book_ids example_world
             (snd (get_notebook_by_id example_world example_store (req_notebook_id empty_request)
                (req_user_id empty_request))) empty_notebook) = []"
    by (simp add: candidate_book_ids_def empty_notebook_def)
  have c: "filter is_search (st_requests example_store) = []"
    by (simp add: example_store_def)
  from empty_candidates_never_searched
         [of example_world example_store _ _ _ empty_request empty_notebook, THEN conjunct2] a b c
  show ?thesis by simp
qed

text \<open>
  The search operation itself has no short-circuit: called with the empty candidate list,
  it sends the search request.
\<close>

theorem search_with_empty_candidates_counterexample:
  "filter is_search (st_requests (snd (search_chunks_vector example_world example_store [1, 0] [] 5))) =
     [ReqMatchDocuments [1, 0] 5 []]"
  by (simp add: search_chunks_vector_def send_def example_world_def example_store_def)

section \<open>Properties of a turn without documents\<close>

text \<open>
  C9. A turn on a notebook whose selected books and selected genres are both empty returns
  the fixed no-documents message with no citations and with the notebook's memory summary
  and key facts as they were.  The tables of the store are unchanged and the only request
  sent is the lookup of the notebook: nothing is saved or updated.
\<close>

theorem empty_scope_turn_changes_nothing:
  assumes "fst (get_notebook_by_id w s (req_notebook_id req) (req_user_id req)) = Some nb"
    and "nb_selected_books nb = []"
    and "nb_selected_genres nb = []"
  shows "fst (process_chat w s req) =
           Inr \<lparr> resp_response = no_documents_message,
                  resp_citations = [],
                  resp_memory_summary = nb_memory_summary nb,
                  resp_key_facts = nb_key_facts nb \<rparr> \<and>
         st_notebooks (snd (process_chat w s req)) = st_notebooks s \<and>
         st_chat_messages (snd (process_chat w s req)) = st_chat_messages s \<and>
         st_books (snd (process_chat w s req)) = st_books s \<and>
         st_requests (snd (process_chat w s req)) =
           st_requests s @ [ReqNotebookById (req_notebook_id req) (req_user_id req)]"
proof -
  have b: "fst (candidate_book_ids w
             (snd (get_notebook_by_id w s (req_notebook_id req) (req_user_id req))) nb) = []"
    using assms(2,3) by (simp add: candidate_book_ids_def)
  show ?thesis
    using assms(2,3)
    by (simp add: process_chat_no_candidates [OF assms(1) b] candidate_book_ids_store
          get_notebook_by_id_store)
qed

theorem empty_scope_turn_changes_nothing_witness:
  "fst (process_chat example_world example_store empty_request) =
     Inr \<lparr> resp_response = no_documents_message,
            resp_citations = [],
            resp_memory_summary = ''old summary'',
            resp_key_facts = [''- old fact''] \<rparr> \<and>
   st_notebooks (snd (process_chat example_world example_store empty_request)) =
     [example_notebook, empty_notebook, genre_notebook] \<and>
   st_requests (snd (process_chat example_world example_store empty_request)) =
     [ReqNotebookById ''n0'' ''u1'']"
proof -
  have a: "fst (get_notebook_by_id example_world example_store (req_notebook_id empty_request)
             (req_user_id empty_request)) = Some empty_notebook"
    by (simp add: get_notebook_by_id_def example_world_def example_store_def empty_request_def
          example_notebook_def empty_notebook_def genre_notebook_def)
  have b: "nb_selected_books empty_notebook = []" "nb_selected_genres empty_notebook = []"
    by (simp_all add: empty_notebook_def)
  from empty_scope_turn_changes_nothing [OF a b]
  show ?thesis by (simp add: example_store_def empty_notebook_def empty_request_def)
qed

section \<open>Properties of a turn whose answer generation fails\<close>

lemma answer_turn_unfold:
  "answer_turn w s req nb chunks =
     (let s1 = snd (get_chat_history w s (req_notebook_id req) 10);
          rag = generate_response w (req_message req) (create_context_from_chunks chunks)
                  (format_chat_history (fst (get_chat_history w s (req_notebook_id req) 10)));
          new_memory_summary = chat_update_notebook_memory w nb (req_message req) (rr_response rag);
          new_key_facts = extract_key_facts w (req_message req) (rr_response rag);
          m = message_record w (req_notebook_id req) (req_message req) (rr_response rag)
                (extract_citations chunks)
      in if w_fails w (ReqInsertChatMessage m)
         then (Inl (ProviderError ''insert''), send (ReqInsertChatMessage m) s1)
         else (Inr \<lparr> resp_response = rr_response rag,
                      resp_citations = extract_citations chunks,
                      resp_memory_summary = new_memory_summary,
                      resp_key_facts = new_key_facts \<rparr>,
               snd (update_notebook_memory w
                      (send (ReqInsertChatMessage m)
                         (s1\<lparr> st_chat_messages := st_chat_messages s1 @ [m] \<rparr>))
                      (req_notebook_id req) new_memory_summary new_key_facts)))"
  by (simp add: answer_turn_def save_chat_message_def Let_def split_beta)

lemma retrieve_chunks_nonempty:
  "retrieve_chunks w s req = (Retrieved nb chunks, s1) \<Longrightarrow> chunks \<noteq> []"
  by (auto simp add: retrieve_chunks_def split_beta split: option.splits if_splits sum.splits)

lemma generate_response_failure:
  "w_llm w (response_messages query context h) = Inl e \<Longrightarrow>
   generate_response w query context h =
     \<lparr> rr_response = apology, rr_context_used = [], rr_chunks_retrieved = 0 \<rparr>"
  by (simp add: generate_response_def)

lemma example_retrieve:
  "retrieve_chunks llm_down_world example_store example_request =
     (Retrieved example_notebook
        [example_chunk\<lparr> cm_book_title := Some ''Origins'', cm_book_author := Some ''Ann'' \<rparr>],
      example_store\<lparr> st_requests :=
        [ReqNotebookById ''n1'' ''u1'', ReqMatchDocuments [1, 0] 5 [''b1''], ReqBooksByIds [''b1'']] \<rparr>)"
  by (simp add: retrieve_chunks_def get_notebook_by_id_def candidate_book_ids_def
        generate_query_embedding_def first_embedding_def search_chunks_vector_def
        add_book_titles_def get_books_by_ids_def send_def Let_def
        llm_down_world_def example_world_def example_store_def example_request_def
        example_notebook_def empty_notebook_def genre_notebook_def example_books_def example_chunk_def)

text \<open>
  C4, as the code has it.  In a turn that reaches the answer generator and whose LLM
  invocation fails, no error leaves the turn and the answer text is the fixed apology; the
  generator reports zero chunks.  The citations of the returned response are extracted
  from the retrieved chunks all the same, one per chunk and so at least one; they are
  empty only when saving the chat message fails.
\<close>

theorem failed_answer_keeps_citations:
  assumes "retrieve_chunks w s req = (Retrieved nb chunks, s1)"
    and "w_llm w (response_messages (req_message req) (create_context_from_chunks chunks)
           (format_chat_history (fst (get_chat_history w s1 (req_notebook_id req) 10)))) = Inl e"
  shows "(\<exists>r. fst (process_chat w s req) = Inr r \<and>
              resp_response r = apology \<and>
              resp_citations r =
                (if w_fails w (ReqInsertChatMessage
                      (message_record w (req_notebook_id req) (req_message req) apology
                         (extract_citations chunks)))
                 then [] else extract_citations chunks)) \<and>
         length (extract_citations chunks) = length chunks \<and> chunks \<noteq> [] \<and>
         rr_chunks_retrieved
           (generate_response w (req_message req) (create_context_from_chunks chunks)
              (format_chat_history (fst (get_chat_history w s1 (req_notebook_id req) 10)))) = 0"
proof -
  note g = generate_response_failure [OF assms(2)]
  have "\<exists>r. fst (process_chat w s req) = Inr r \<and> resp_response r = apology \<and>
             resp_citations r =
                (if w_fails w (ReqInsertChatMessage
                      (message_record w (req_notebook_id req) (req_message req) apology
                         (extract_citations chunks)))
                 then [] else extract_citations chunks)"
    by (simp add: process_chat_def process_chat_try_def assms(1) answer_turn_unfold g Let_def)
  moreover have "length (extract_citations chunks) = length chunks"
    by (simp add: extract_citations_map)
  moreover have "chunks \<noteq> []"
    using assms(1) by (rule retrieve_chunks_nonempty)
  ultimately show ?thesis by (simp add: g)
qed

theorem failed_answer_keeps_citations_witness:
  "resp_response (projr (fst (process_chat llm_down_world example_store example_request))) = apology \<and>
   resp_citations (projr (fst (process_chat llm_down_world example_store example_request))) =
     [\<lparr> ct_book_title = ''Origins'', ct_book_author = ''Ann'',
        ct_page_start = PageInt 3, ct_page_end = PageInt 3,
        ct_content_preview = ''Rome was founded in 753 BC.'' \<rparr>]"
proof -
  have llm: "w_llm llm_down_world msgs = Inl (ProviderError ''llm'')" for msgs
    by (simp add: llm_down_world_def)
  have ok: "\<not> w_fails llm_down_world r" for r
    by (simp add: llm_down_world_def example_world_def)
  from failed_answer_keeps_citations [OF example_retrieve llm]
  obtain r where r: "fst (process_chat llm_down_world example_store example_request) = Inr r"
      "resp_response r = apology"
      "resp_citations r = extract_citations
         [example_chunk\<lparr> cm_book_title := Some ''Origins'', cm_book_author := Some ''Ann'' \<rparr>]"
    by (auto simp add: ok)
  then show ?thesis
    by (simp add: extract_citations_map make_citation_def page_or_default_def content_preview_def
          example_chunk_def)
qed

text \<open>
  The citations of such a turn are not empty in general: with the LLM down and one chunk
  retrieved, the response holds the apology together with one citation.
\<close>

theorem failed_answer_counterexample:
  "w_llm llm_down_world
     (response_messages (req_message example_request)
        (create_context_from_chunks
           [example_chunk\<lparr> cm_book_title := Some ''Origins'', cm_book_author := Some ''Ann'' \<rparr>])
        (format_chat_history
           [example_turn ''1'' 1, example_turn ''2'' 2, example_turn ''3'' 3])) =
     Inl (ProviderError ''llm'') \<and>
   fst (process_chat llm_down_world example_store example_request) =
     Inr \<lparr> resp_response = apology,
            resp_citations =
              [\<lparr> ct_book_title = ''Origins'', ct_book_author = ''Ann'',
                 ct_page_start = PageInt 3, ct_page_end = PageInt 3,
                 ct_content_preview = ''Rome was founded in 753 BC.'' \<rparr>],
            resp_memory_summary = ''old summary'',
            resp_key_facts = [] \<rparr>"
proof -
  have llm: "w_llm llm_down_world msgs = Inl (ProviderError ''llm'')" for msgs
    by (simp add: llm_down_world_def)
  have ok: "\<not> w_fails llm_down_world r" for r
    by (simp add: llm_down_world_def example_world_def)
  have "fst (process_chat llm_down_world example_store example_request) =
     Inr \<lparr> resp_response = apology,
            resp_citations = extract_citations
              [example_chunk\<lparr> cm_book_title := Some ''Origins'', cm_book_author := Some ''Ann'' \<rparr>],
            resp_memory_summary = ''old summary'',
            resp_key_facts = [] \<rparr>"
    by (simp add: process_chat_def process_chat_try_def example_retrieve answer_turn_unfold
          generate_response_def chat_update_notebook_memory_def update_memory_summary_def
          extract_key_facts_def llm ok Let_def example_notebook_def)
  then show ?thesis
    by (simp add: llm extract_citations_map make_citation_def page_or_default_def
          content_preview_def example_chunk_def)
qed

section \<open>General properties of a turn\<close>

text \<open>
  The retrieval half of a turn only sends requests: it leaves the tables as they are, and
  the notebook it goes on with is a row of the store with the requested id.
\<close>

lemma answer_turn_cases:
  "answer_turn w s req nb chunks =
     (if w_fails w (ReqInsertChatMessage (turn_message w s req chunks))
      then (Inl (ProviderError ''insert''),
            send (ReqInsertChatMessage (turn_message w s req chunks))
              (snd (get_chat_history w s (req_notebook_id req) 10)))
      else (Inr \<lparr> resp_response = turn_answer w s req chunks,
                   resp_citations = extract_citations chunks,
                   resp_memory_summary =
                     chat_update_notebook_memory w nb (req_message req) (turn_answer w s req chunks),
                   resp_key_facts =
                     extract_key_facts w (req_message req) (turn_answer w s req chunks) \<rparr>,
            snd (update_notebook_memory w
                   (send (ReqInsertChatMessage (turn_message w s req chunks))
                      ((snd (get_chat_history w s (req_notebook_id req) 10))
                         \<lparr> st_chat_messages :=
                             st_chat_messages (snd (get_chat_history w s (req_notebook_id req) 10)) @
                             [turn_message w s req chunks] \<rparr>))
                   (req_notebook_id req)
                   (chat_update_notebook_memory w nb (req_message req) (turn_answer w s req chunks))
                   (extract_key_facts w (req_message req) (turn_answer w s req chunks)))))"
  unfolding answer_turn_unfold Let_def turn_message_def turn_answer_def by (rule refl)

lemma send_tables:
  "st_books (send r s) = st_books s"
  "st_notebooks (send r s) = st_notebooks s"
  "st_chat_messages (send r s) = st_chat_messages s"
  by (simp_all add: send_def)

lemma get_notebook_by_id_tables:
  "st_books (snd (get_notebook_by_id w s nid uid)) = st_books s"
  "st_notebooks (snd (get_notebook_by_id w s nid uid)) = st_notebooks s"
  "st_chat_messages (snd (get_notebook_by_id w s nid uid)) = st_chat_messages s"
  by (simp_all add: get_notebook_by_id_store)

lemma candidate_book_ids_tables:
  "st_books (snd (candidate_book_ids w s nb)) = st_books s"
  "st_notebooks (snd (candidate_book_ids w s nb)) = st_notebooks s"
  "st_chat_messages (snd (candidate_book_ids w s nb)) = st_chat_messages s"
  by (simp_all add: candidate_book_ids_store)

lemma search_chunks_vector_tables:
  "st_books (snd (search_chunks_vector w s q ids k)) = st_books s"
  "st_notebooks (snd (search_chunks_vector w s q ids k)) = st_notebooks s"
  "st_chat_messages (snd (search_chunks_vector w s q ids k)) = st_chat_messages s"
  by (simp_all add: search_chunks_vector_def send_def)

lemma add_book_titles_tables:
  "st_books (snd (add_book_titles w s cs)) = st_books s"
  "st_notebooks (snd (add_book_titles w s cs)) = st_notebooks s"
  "st_chat_messages (snd (add_book_titles w s cs)) = st_chat_messages s"
  by (simp_all add: add_book_titles_def get_books_by_ids_def send_def split_beta)

lemma retrieve_chunks_tables:
  "st_books (snd (retrieve_chunks w s req)) = st_books s"
  "st_notebooks (snd (retrieve_chunks w s req)) = st_notebooks s"
  "st_chat_messages (snd (retrieve_chunks w s req)) = st_chat_messages s"
  by (simp_all add: retrieve_chunks_def split_beta get_notebook_by_id_tables
        candidate_book_ids_tables search_chunks_vector_tables add_book_titles_tables
        split: option.split sum.split)

lemma get_notebook_by_id_found:
  assumes "fst (get_notebook_by_id w s nid uid) = Some nb"
  shows "nb \<in> set (st_notebooks s)" and "nb_id nb = nid"
proof -
  define P where "P = (\<lambda>n :: notebook. nb_id n = nid \<and> (if uid \<noteq> [] then nb_user_id n = uid else True))"
  have g: "get_notebook_by_id w s nid uid =
     (if w_fails w (ReqNotebookById nid uid)
      then (None, send (ReqNotebookById nid uid) s)
      else (case filter P (st_notebooks s) of [] \<Rightarrow> None | n # _ \<Rightarrow> Some n,
            send (ReqNotebookById nid uid) s))"
    unfolding P_def get_notebook_by_id_def by (rule refl)
  from assms have "\<exists>rest. filter P (st_notebooks s) = nb # rest"
    unfolding g by (simp split: if_splits list.splits)
  then obtain rest where "filter P (st_notebooks s) = nb # rest" by blast
  then have "nb \<in> set (filter P (st_notebooks s))" by (simp only: list.set_intros(1))
  then have "nb \<in> set (st_notebooks s)" and "P nb" by simp_all
  then show "nb \<in> set (st_notebooks s)" and "nb_id nb = nid"
    by (simp_all add: P_def)
qed

lemma retrieve_chunks_lookup:
  assumes "retrieve_chunks w s req = (Retrieved nb chunks, s1)"
  shows "fst (get_notebook_by_id w s (req_notebook_id req) (req_user_id req)) = Some nb"
  using assms
  by (simp add: retrieve_chunks_def split_beta split: option.splits if_splits sum.splits)

lemma example_retrieve_answering:
  "retrieve_chunks example_world example_store example_request =
     (Retrieved example_notebook
        [example_chunk\<lparr> cm_book_title := Some ''Origins'', cm_book_author := Some ''Ann'' \<rparr>],
      example_store\<lparr> st_requests :=
        [ReqNotebookById ''n1'' ''u1'', ReqMatchDocuments [1, 0] 5 [''b1''], ReqBooksByIds [''b1'']] \<rparr>)"
  by (simp add: retrieve_chunks_def get_notebook_by_id_def candidate_book_ids_def
        generate_query_embedding_def first_embedding_def search_chunks_vector_def
        add_book_titles_def get_books_by_ids_def send_def Let_def
        example_world_def example_store_def example_request_def
        example_notebook_def empty_notebook_def genre_notebook_def example_books_def example_chunk_def)

section \<open>Properties of the memory update\<close>

lemma update_notebook_memory_written:
  assumes ok: "\<not> w_fails w (ReqUpdateNotebook nid m f)"
    and n: "n \<in> set (st_notebooks (snd (update_notebook_memory w s nid m f)))"
    and id: "nb_id n = nid"
  shows "nb_memory_summary n = m"
proof -
  let ?upd = "\<lambda>x. if nb_id x = nid
                   then x\<lparr> nb_memory_summary := m, nb_key_facts := f, nb_updated_at := w_utcnow w \<rparr>
                   else x"
  have "st_notebooks (snd (update_notebook_memory w s nid m f)) = map ?upd (st_notebooks s)"
    using ok by (simp add: update_notebook_memory_def send_def)
  with n have "n \<in> set (map ?upd (st_notebooks s))" by simp
  then obtain x where x: "n = ?upd x" unfolding set_map by (rule imageE)
  show ?thesis
  proof (cases "nb_id x = nid")
    case True
    with x show ?thesis by simp
  next
    case False
    with x id show ?thesis by simp
  qed
qed

lemma update_notebook_memory_failed:
  "w_fails w (ReqUpdateNotebook nid m f) \<Longrightarrow>
   st_notebooks (snd (update_notebook_memory w s nid m f)) = st_notebooks s"
  by (simp add: update_notebook_memory_def send_def)

lemma get_chat_history_notebooks:
  "st_notebooks (snd (get_chat_history w s nid k)) = st_notebooks s"
  by (simp add: get_chat_history_def send_def)

lemma update_notebook_memory_ids:
  "map nb_id (st_notebooks (snd (update_notebook_memory w s nid m f))) = map nb_id (st_notebooks s)"
  by (simp add: update_notebook_memory_def send_def comp_def cong: if_cong)

lemma retrieve_chunks_notebooks:
  assumes "retrieve_chunks w s req = (x, s1)"
  shows "st_notebooks s1 = st_notebooks s"
  using retrieve_chunks_tables(2) [of w s req] assms by simp

lemma process_chat_unsaved:
  assumes r: "retrieve_chunks w s req = (Retrieved nb chunks, s1)"
    and f: "w_fails w (ReqInsertChatMessage (turn_message w s1 req chunks))"
  shows "process_chat w s req =
           (Inr \<lparr> resp_response = apology, resp_citations = [],
                   resp_memory_summary = [], resp_key_facts = [] \<rparr>,
            send (ReqInsertChatMessage (turn_message w s1 req chunks))
              (snd (get_chat_history w s1 (req_notebook_id req) 10)))"
proof -
  have "answer_turn w s1 req nb chunks =
          (Inl (ProviderError ''insert''),
           send (ReqInsertChatMessage (turn_message w s1 req chunks))
             (snd (get_chat_history w s1 (req_notebook_id req) 10)))"
    unfolding answer_turn_cases if_P [OF f] by (rule refl)
  then show ?thesis
    by (simp add: process_chat_def process_chat_try_def r)
qed

lemma process_chat_saved:
  assumes r: "retrieve_chunks w s req = (Retrieved nb chunks, s1)"
    and f: "\<not> w_fails w (ReqInsertChatMessage (turn_message w s1 req chunks))"
  shows "process_chat w s req =
           (Inr \<lparr> resp_response = turn_answer w s1 req chunks,
                   resp_citations = extract_citations chunks,
                   resp_memory_summary =
                     chat_update_notebook_memory w nb (req_message req) (turn_answer w s1 req chunks),
                   resp_key_facts =
                     extract_key_facts w (req_message req) (turn_answer w s1 req chunks) \<rparr>,
            snd (update_notebook_memory w
                   (send (ReqInsertChatMessage (turn_message w s1 req chunks))
                      ((snd (get_chat_history w s1 (req_notebook_id req) 10))
                         \<lparr> st_chat_messages :=
                             st_chat_messages (snd (get_chat_history w s1 (req_notebook_id req) 10)) @
                             [turn_message w s1 req chunks] \<rparr>))
                   (req_notebook_id req)
                   (chat_update_notebook_memory w nb (req_message req) (turn_answer w s1 req chunks))
                   (extract_key_facts w (req_message req) (turn_answer w s1 req chunks))))"
proof -
  note at = answer_turn_cases [of w s1 req nb chunks, unfolded if_not_P [OF f]]
  show ?thesis
    unfolding process_chat_def process_chat_try_def r by (simp add: at)
qed

lemma same_summary_update:
  assumes d: "distinct (map nb_id xs)" and nb: "nb \<in> set xs"
  shows "map nb_memory_summary
           (map (\<lambda>n. if nb_id n = nb_id nb
                      then n\<lparr> nb_memory_summary := nb_memory_summary nb,
                              nb_key_facts := f, nb_updated_at := t \<rparr>
                      else n) xs) =
         map nb_memory_summary xs"
proof -
  from d have inj: "inj_on nb_id (set xs)"
    by (simp add: distinct_map)
  have "nb_memory_summary
          (if nb_id n = nb_id nb
           then n\<lparr> nb_memory_summary := nb_memory_summary nb, nb_key_facts := f, nb_updated_at := t \<rparr>
           else n) = nb_memory_summary n" if n: "n \<in> set xs" for n
  proof (cases "nb_id n = nb_id nb")
    case True
    with inj n nb have "n = nb" by (blast dest: inj_onD)
    with True show ?thesis by simp
  next
    case False
    then show ?thesis by simp
  qed
  then show ?thesis
    unfolding map_map comp_def by (rule map_cong [OF refl])
qed

lemma update_notebook_memory_same_summary:
  assumes d: "distinct (map nb_id (st_notebooks s))" and nb: "nb \<in> set (st_notebooks s)"
  shows "map nb_memory_summary
           (st_notebooks (snd (update_notebook_memory w s (nb_id nb) (nb_memory_summary nb) f))) =
         map nb_memory_summary (st_notebooks s)"
proof (cases "w_fails w (ReqUpdateNotebook (nb_id nb) (nb_memory_summary nb) f)")
  case True
  then show ?thesis by (simp only: update_notebook_memory_failed)
next
  case False
  then have "st_notebooks (snd (update_notebook_memory w s (nb_id nb) (nb_memory_summary nb) f)) =
      map (\<lambda>n. if nb_id n = nb_id nb
                then n\<lparr> nb_memory_summary := nb_memory_summary nb,
                        nb_key_facts := f, nb_updated_at := w_utcnow w \<rparr>
                else n) (st_notebooks s)"
    by (simp add: update_notebook_memory_def send_def)
  then show ?thesis
    by (simp only: same_summary_update [OF d nb])
qed

lemma example_retrieve_unsaved:
  "retrieve_chunks save_down_world example_store example_request =
     (Retrieved example_notebook
        [example_chunk\<lparr> cm_book_title := Some ''Origins'', cm_book_author := Some ''Ann'' \<rparr>],
      example_store\<lparr> st_requests :=
        [ReqNotebookById ''n1'' ''u1'', ReqMatchDocuments [1, 0] 5 [''b1''], ReqBooksByIds [''b1'']] \<rparr>)"
  by (simp add: retrieve_chunks_def get_notebook_by_id_def candidate_book_ids_def
        generate_query_embedding_def first_embedding_def search_chunks_vector_def
        add_book_titles_def get_books_by_ids_def send_def Let_def
        save_down_world_def example_world_def example_store_def example_request_def
        example_notebook_def empty_notebook_def genre_notebook_def example_books_def example_chunk_def)

lemma example_store_summaries:
  "map nb_memory_summary (st_notebooks example_store) = [''old summary'', ''old summary'', []]"
  by (simp add: example_store_def example_notebook_def empty_notebook_def genre_notebook_def)

lemma example_store_ids:
  "map nb_id (st_notebooks example_store) = [''n1'', ''n0'', ''n2'']"
  by (simp add: example_store_def example_notebook_def empty_notebook_def genre_notebook_def)

text \<open>
  C5, as the code has it, for a turn that reaches the memory update, that is, whose
  notebook was found in the store and whose retrieval gave chunks.  When the generation of
  the summary succeeds, the new summary is the generated text itself, whatever the summary
  was before.  It reaches the notebook only through the end of the turn: if saving the chat
  message raises, the turn answers with the apology and an empty memory summary and the
  notebooks stay as they were; if the message is saved, the response carries the new
  summary, and the update request writes it to the notebook unless the store rejects the
  request, in which case the notebooks stay as they were.  When the generation fails, the
  new summary is the one the notebook had, and the memory summary of every notebook is
  after the turn what it was before, the ids of the notebooks being distinct.
\<close>

theorem memory_summary_written_when_persisted:
  assumes r: "retrieve_chunks w s req = (Retrieved nb chunks, s1)"
  shows "nb \<in> set (st_notebooks s) \<and> nb_id nb = req_notebook_id req \<and>
    map nb_id (st_notebooks (snd (process_chat w s req))) = map nb_id (st_notebooks s) \<and>
    (\<forall>c. w_llm w (summary_messages (nb_memory_summary nb) (req_message req)
                    (turn_answer w s1 req chunks)) = Inr c \<longrightarrow>
       chat_update_notebook_memory w nb (req_message req) (turn_answer w s1 req chunks) = c \<and>
       (if w_fails w (ReqInsertChatMessage (turn_message w s1 req chunks))
        then fst (process_chat w s req) =
               Inr \<lparr> resp_response = apology, resp_citations = [],
                      resp_memory_summary = [], resp_key_facts = [] \<rparr> \<and>
             st_notebooks (snd (process_chat w s req)) = st_notebooks s
        else resp_memory_summary (projr (fst (process_chat w s req))) = c \<and>
             (if w_fails w (ReqUpdateNotebook (req_notebook_id req) c
                              (extract_key_facts w (req_message req) (turn_answer w s1 req chunks)))
              then st_notebooks (snd (process_chat w s req)) = st_notebooks s
              else (\<forall>n \<in> set (st_notebooks (snd (process_chat w s req))).
                      nb_id n = req_notebook_id req \<longrightarrow> nb_memory_summary n = c)))) \<and>
    (\<forall>e. w_llm w (summary_messages (nb_memory_summary nb) (req_message req)
                    (turn_answer w s1 req chunks)) = Inl e \<longrightarrow>
       chat_update_notebook_memory w nb (req_message req) (turn_answer w s1 req chunks) =
         nb_memory_summary nb \<and>
       (distinct (map nb_id (st_notebooks s)) \<longrightarrow>
          map nb_memory_summary (st_notebooks (snd (process_chat w s req))) =
          map nb_memory_summary (st_notebooks s)))"
proof -
  let ?nid = "req_notebook_id req"
  let ?q = "req_message req"
  let ?a = "turn_answer w s1 req chunks"
  let ?m = "turn_message w s1 req chunks"
  let ?mem = "chat_update_notebook_memory w nb ?q ?a"
  let ?facts = "extract_key_facts w ?q ?a"
  let ?h = "snd (get_chat_history w s1 ?nid 10)"
  let ?s2 = "send (ReqInsertChatMessage ?m) (?h\<lparr> st_chat_messages := st_chat_messages ?h @ [?m] \<rparr>)"
  let ?P = "process_chat w s req"
  note lookup = retrieve_chunks_lookup [OF r]
  note found = get_notebook_by_id_found [OF lookup]
  have n1: "st_notebooks s1 = st_notebooks s"
    using r by (rule retrieve_chunks_notebooks)
  have n2: "st_notebooks ?s2 = st_notebooks s"
    by (simp add: send_def get_chat_history_notebooks n1)
  have unsaved: "fst ?P = Inr \<lparr> resp_response = apology, resp_citations = [],
                                  resp_memory_summary = [], resp_key_facts = [] \<rparr>"
                "st_notebooks (snd ?P) = st_notebooks s"
    if f: "w_fails w (ReqInsertChatMessage ?m)"
    unfolding process_chat_unsaved [OF r f]
    by (simp_all add: send_def get_chat_history_notebooks n1)
  have saved: "resp_memory_summary (projr (fst ?P)) = ?mem"
              "snd ?P = snd (update_notebook_memory w ?s2 ?nid ?mem ?facts)"
    if f: "\<not> w_fails w (ReqInsertChatMessage ?m)"
    unfolding process_chat_saved [OF r f] by simp_all
  have ids: "map nb_id (st_notebooks (snd ?P)) = map nb_id (st_notebooks s)"
  proof (cases "w_fails w (ReqInsertChatMessage ?m)")
    case True
    then show ?thesis by (simp only: unsaved(2))
  next
    case False
    show ?thesis
      unfolding saved(2) [OF False] update_notebook_memory_ids n2 by (rule refl)
  qed
  have success: "?mem = c \<and>
       (if w_fails w (ReqInsertChatMessage ?m)
        then fst ?P = Inr \<lparr> resp_response = apology, resp_citations = [],
                              resp_memory_summary = [], resp_key_facts = [] \<rparr> \<and>
             st_notebooks (snd ?P) = st_notebooks s
        else resp_memory_summary (projr (fst ?P)) = c \<and>
             (if w_fails w (ReqUpdateNotebook ?nid c ?facts)
              then st_notebooks (snd ?P) = st_notebooks s
              else (\<forall>n \<in> set (st_notebooks (snd ?P)). nb_id n = ?nid \<longrightarrow> nb_memory_summary n = c)))"
    if llm: "w_llm w (summary_messages (nb_memory_summary nb) ?q ?a) = Inr c" for c
  proof -
    have mem: "?mem = c"
      using llm by (simp add: chat_update_notebook_memory_def update_memory_summary_def)
    show ?thesis
    proof (cases "w_fails w (ReqInsertChatMessage ?m)")
      case True
      show ?thesis
        unfolding if_P [OF True] using mem unsaved [OF True] by (simp only: simp_thms)
    next
      case False
      note sv = saved [OF False, unfolded mem]
      have upd: "if w_fails w (ReqUpdateNotebook ?nid c ?facts)
              then st_notebooks (snd ?P) = st_notebooks s
              else (\<forall>n \<in> set (st_notebooks (snd ?P)). nb_id n = ?nid \<longrightarrow> nb_memory_summary n = c)"
      proof (cases "w_fails w (ReqUpdateNotebook ?nid c ?facts)")
        case True
        have "st_notebooks (snd ?P) = st_notebooks s"
          unfolding sv(2) update_notebook_memory_failed [OF True] by (rule n2)
        then show ?thesis unfolding if_P [OF True] .
      next
        case False
        have "nb_memory_summary n = c"
          if "n \<in> set (st_notebooks (snd ?P))" "nb_id n = ?nid" for n
          using update_notebook_memory_written [OF False that(1) [unfolded sv(2)] that(2)] .
        then show ?thesis unfolding if_not_P [OF False] by blast
      qed
      show ?thesis
        unfolding if_not_P [OF False] using mem sv(1) upd by (simp only: simp_thms)
    qed
  qed
  have failure: "?mem = nb_memory_summary nb \<and>
       (distinct (map nb_id (st_notebooks s)) \<longrightarrow>
          map nb_memory_summary (st_notebooks (snd ?P)) = map nb_memory_summary (st_notebooks s))"
    if llm: "w_llm w (summary_messages (nb_memory_summary nb) ?q ?a) = Inl e" for e
  proof (intro conjI impI)
    show mem: "?mem = nb_memory_summary nb"
      using llm by (simp add: chat_update_notebook_memory_def update_memory_summary_def)
    assume d: "distinct (map nb_id (st_notebooks s))"
    show "map nb_memory_summary (st_notebooks (snd ?P)) = map nb_memory_summary (st_notebooks s)"
    proof (cases "w_fails w (ReqInsertChatMessage ?m)")
      case True
      then show ?thesis by (simp only: unsaved(2))
    next
      case False
      have d2: "distinct (map nb_id (st_notebooks ?s2))" and nb2: "nb \<in> set (st_notebooks ?s2)"
        unfolding n2 using d found(1) by (simp_all only:)
      have "map nb_memory_summary
              (st_notebooks (snd (update_notebook_memory w ?s2 (nb_id nb) (nb_memory_summary nb) ?facts))) =
            map nb_memory_summary (st_notebooks ?s2)"
        using d2 nb2 by (rule update_notebook_memory_same_summary)
      then show ?thesis
        unfolding saved(2) [OF False] mem found(2) n2 .
    qed
  qed
  from found ids success failure show ?thesis by blast
qed

theorem memory_summary_written_when_persisted_witness:
  "resp_memory_summary (projr (fst (process_chat example_world example_store example_request))) =
     ''- Rome is old'' \<and>
   nb_memory_summary (hd (st_notebooks (snd (process_chat example_world example_store example_request)))) =
     ''- Rome is old'' \<and>
   map nb_memory_summary (st_notebooks (snd (process_chat llm_down_world example_store example_request))) =
     [''old summary'', ''old summary'', []]"
proof -
  let ?P = "process_chat example_world example_store example_request"
  have llm: "w_llm example_world msgs = Inr ''- Rome is old''" for msgs
    by (simp add: example_world_def)
  have down: "w_llm llm_down_world msgs = Inl (ProviderError ''llm'')" for msgs
    by (simp add: llm_down_world_def)
  have ok: "\<not> w_fails example_world x" for x
    by (simp add: example_world_def)
  have rid: "req_notebook_id example_request = ''n1''"
    by (simp add: example_request_def)
  have d: "distinct (map nb_id (st_notebooks example_store))"
    unfolding example_store_ids by simp
  note up = memory_summary_written_when_persisted [OF example_retrieve_answering]
  note dn = memory_summary_written_when_persisted [OF example_retrieve]
  note ids = up [THEN conjunct2, THEN conjunct2, THEN conjunct1, unfolded example_store_ids]
  note written = up [THEN conjunct2, THEN conjunct2, THEN conjunct2, THEN conjunct1,
                     rule_format, OF llm, THEN conjunct2, unfolded if_not_P [OF ok]]
  from written have A: "resp_memory_summary (projr (fst ?P)) = ''- Rome is old''"
    by (rule conjunct1)
  from written have all: "\<forall>n \<in> set (st_notebooks (snd ?P)).
      nb_id n = req_notebook_id example_request \<longrightarrow> nb_memory_summary n = ''- Rome is old''"
    by (rule conjunct2)
  from ids have ne: "st_notebooks (snd ?P) \<noteq> []"
    by auto
  have "nb_id (hd (st_notebooks (snd ?P))) = hd (map nb_id (st_notebooks (snd ?P)))"
    using ne by (simp add: hd_map)
  then have id: "nb_id (hd (st_notebooks (snd ?P))) = req_notebook_id example_request"
    unfolding ids rid by simp
  from all hd_in_set [OF ne] id
  have B: "nb_memory_summary (hd (st_notebooks (snd ?P))) = ''- Rome is old''"
    by blast
  from dn [THEN conjunct2, THEN conjunct2, THEN conjunct2, THEN conjunct2,
           rule_format, OF down, THEN conjunct2, THEN mp, OF d]
  have C: "map nb_memory_summary
             (st_notebooks (snd (process_chat llm_down_world example_store example_request))) =
           [''old summary'', ''old summary'', []]"
    unfolding example_store_summaries .
  from A B C show ?thesis by (intro conjI)
qed

text \<open>
  A generated summary does not replace the stored one in every turn: when the generation
  succeeds and saving the chat message raises, the handler answers with the apology and an
  empty memory summary, and the notebook keeps its old summary.
\<close>

theorem memory_summary_counterexample:
  "w_llm save_down_world
     (summary_messages (nb_memory_summary example_notebook) (req_message example_request)
        ''- Rome is old'') = Inr ''- Rome is old'' \<and>
   fst (process_chat save_down_world example_store example_request) =
     Inr \<lparr> resp_response = apology, resp_citations = [],
            resp_memory_summary = [], resp_key_facts = [] \<rparr> \<and>
   map nb_memory_summary
     (st_notebooks (snd (process_chat save_down_world example_store example_request))) =
     [''old summary'', ''old summary'', []]"
proof -
  have llm: "w_llm save_down_world msgs = Inr ''- Rome is old''" for msgs
    by (simp add: save_down_world_def example_world_def)
  have f: "w_fails save_down_world (ReqInsertChatMessage m)" for m
    by (simp add: save_down_world_def)
  note p = process_chat_unsaved [OF example_retrieve_unsaved f]
  have "st_notebooks (snd (process_chat save_down_world example_store example_request)) =
        st_notebooks example_store"
    unfolding p by (simp add: send_def get_chat_history_notebooks)
  then have "map nb_memory_summary
     (st_notebooks (snd (process_chat save_down_world example_store example_request))) =
     [''old summary'', ''old summary'', []]"
    by (simp only: example_store_summaries)
  moreover have "fst (process_chat save_down_world example_store example_request) =
     Inr \<lparr> resp_response = apology, resp_citations = [],
            resp_memory_summary = [], resp_key_facts = [] \<rparr>"
    unfolding p by (rule fst_conv)
  ultimately show ?thesis using llm by (simp only: simp_thms)
qed

section \<open>Properties of the reported chunk count\<close>

lemma occurrences_no_sublist: "\<not> sublist sub s \<Longrightarrow> occurrences sub s = 0"
  by (induction s) (auto simp add: sublist_Cons_right)

lemma prefix_append_last:
  assumes "x \<noteq> []" and "last x \<notin> set sub"
  shows "prefix sub (x @ y) \<longleftrightarrow> prefix sub x"
proof
  assume "prefix sub (x @ y)"
  then consider "prefix sub x" | us where "sub = x @ us" "prefix us y"
    by (auto simp add: prefix_append)
  then show "prefix sub x"
  proof cases
    case 1
    then show ?thesis .
  next
    case 2
    with assms have "last x \<in> set sub" by simp
    with assms show ?thesis by simp
  qed
next
  assume "prefix sub x"
  then show "prefix sub (x @ y)" by (rule prefix_prefix)
qed

lemma prefix_append_hd:
  assumes "y \<noteq> []" and "hd y \<notin> set sub"
  shows "prefix sub (x @ y) \<longleftrightarrow> prefix sub x"
proof
  assume "prefix sub (x @ y)"
  then consider "prefix sub x" | us where "sub = x @ us" "prefix us y"
    by (auto simp add: prefix_append)
  then show "prefix sub x"
  proof cases
    case 1
    then show ?thesis .
  next
    case 2
    show ?thesis
    proof (cases us)
      case Nil
      with 2 show ?thesis by simp
    next
      case (Cons u us')
      with 2 assms(1) have "hd y = u" by (cases y) auto
      with 2 Cons assms(2) show ?thesis by simp
    qed
  qed
next
  assume "prefix sub x"
  then show "prefix sub (x @ y)" by (rule prefix_prefix)
qed

lemma occurrences_append_last:
  "x \<noteq> [] \<Longrightarrow> last x \<notin> set sub \<Longrightarrow>
   occurrences sub (x @ y) = occurrences sub x + occurrences sub y"
proof (induction x)
  case Nil
  then show ?case by simp
next
  case (Cons c cs)
  show ?case
  proof (cases "cs = []")
    case True
    with Cons.prems prefix_append_last [of "[c]" sub y] show ?thesis by simp
  next
    case False
    with Cons.prems have "last cs \<notin> set sub" by simp
    with Cons.IH False have "occurrences sub (cs @ y) = occurrences sub cs + occurrences sub y"
      by simp
    moreover from Cons.prems prefix_append_last [of "c # cs" sub y]
    have "prefix sub (c # cs @ y) \<longleftrightarrow> prefix sub (c # cs)" by simp
    ultimately show ?thesis by simp
  qed
qed

lemma occurrences_append_hd:
  "y \<noteq> [] \<Longrightarrow> hd y \<notin> set sub \<Longrightarrow>
   occurrences sub (x @ y) = occurrences sub x + occurrences sub y"
proof (induction x)
  case Nil
  then show ?case by simp
next
  case (Cons c cs)
  from Cons.prems prefix_append_hd [of y sub "c # cs"]
  have "prefix sub (c # cs @ y) \<longleftrightarrow> prefix sub (c # cs)" by simp
  with Cons show ?case by simp
qed

lemma occurrences_from_skip:
  "occurrences ''[From'' (''[From'' @ r) = 1 + occurrences ''[From'' r"
  by simp

lemma py_split_from_length:
  "length (py_split_from ''[From'' cur s) = 1 + occurrences ''[From'' s"
proof (induction "length s" arbitrary: cur s rule: less_induct)
  case less
  show ?case
  proof (cases s)
    case Nil
    then show ?thesis by simp
  next
    case (Cons c cs)
    show ?thesis
    proof (cases "prefix ''[From'' (c # cs)")
      case True
      then obtain r where r: "c # cs = ''[From'' @ r"
        by (auto simp add: prefix_def)
      then have "length s = 5 + length r"
        using Cons by simp
      then have "length r < length s" by simp
      from less [OF this]
      have ih: "length (py_split_from ''[From'' [] r) = 1 + occurrences ''[From'' r" .
      have d: "drop (length ''[From'') (c # cs) = r"
        unfolding r by simp
      have o: "occurrences ''[From'' (c # cs) = 1 + occurrences ''[From'' r"
        unfolding r by (rule occurrences_from_skip)
      have t: "''[From'' \<noteq> [] \<and> prefix ''[From'' (c # cs)"
        using True by simp
      have "py_split_from ''[From'' cur (c # cs) = cur # py_split_from ''[From'' [] r"
        unfolding py_split_from.simps(2) if_P [OF t] d by (rule refl)
      then show ?thesis
        unfolding Cons o by (simp only: list.size ih)
    next
      case False
      then have n: "\<not> (''[From'' \<noteq> [] \<and> prefix ''[From'' (c # cs))"
        by blast
      have "length cs < length s" using Cons by simp
      from less [OF this]
      have ih: "length (py_split_from ''[From'' (cur @ [c]) cs) = 1 + occurrences ''[From'' cs" .
      have p: "py_split_from ''[From'' cur (c # cs) = py_split_from ''[From'' (cur @ [c]) cs"
        unfolding py_split_from.simps(2) if_not_P [OF n] by (rule refl)
      have o: "occurrences ''[From'' (c # cs) = occurrences ''[From'' cs"
        unfolding occurrences.simps(2) if_not_P [OF False] by simp
      show ?thesis
        unfolding Cons p o by (rule ih)
    qed
  qed
qed

lemma digit_char_page: "d < 10 \<Longrightarrow> digit_char d \<in> set ''?-0123456789''"
proof -
  assume d: "d < 10"
  have "digit_char d = ''?-0123456789'' ! (d + 2)"
    by (simp add: digit_char_def)
  moreover from d have "d + 2 < length ''?-0123456789''" by simp
  ultimately show ?thesis by (simp only: nth_mem)
qed

lemma str_nat_chars: "set (str_nat n) \<subseteq> set ''?-0123456789'' \<and> str_nat n \<noteq> []"
proof (induction n rule: str_nat.induct)
  case (1 n)
  show ?case
  proof (cases "n < 10")
    case True
    then have "str_nat n = [digit_char n]"
      by (subst str_nat.simps) simp
    with digit_char_page [OF True] show ?thesis
      by (simp only: list.set insert_subset empty_subsetI simp_thms not_Cons_self2)
  next
    case False
    then have eq: "str_nat n = str_nat (n div 10) @ [digit_char (n mod 10)]"
      by (subst str_nat.simps) simp
    have "digit_char (n mod 10) \<in> set ''?-0123456789''"
      by (rule digit_char_page) simp
    with 1 [OF False] show ?thesis
      unfolding eq
      by (simp only: set_append list.set Un_subset_iff insert_subset empty_subsetI simp_thms
            append_is_Nil_conv)
  qed
qed


lemma page_char_not_from: "c \<in> set ''?-0123456789'' \<Longrightarrow> c \<notin> set ''[From''"
  by auto

lemma page_str_chars: "set (page_str p) \<subseteq> set ''?-0123456789'' \<and> page_str p \<noteq> []"
proof (cases p)
  case None
  then show ?thesis by (simp add: page_str_def)
next
  case (Some i)
  show ?thesis
  proof (cases "i < 0")
    case True
    then have "page_str p = CHR ''-'' # str_nat (nat (- i))"
      using Some by (simp add: page_str_def str_int_def)
    moreover have "CHR ''-'' \<in> set ''?-0123456789''" by simp
    ultimately show ?thesis
      using str_nat_chars [of "nat (- i)"]
      by (simp only: list.set insert_subset simp_thms list.distinct)
  next
    case False
    then have "page_str p = str_nat (nat i)"
      using Some by (simp add: page_str_def str_int_def)
    then show ?thesis
      using str_nat_chars [of "nat i"] by (simp only: simp_thms)
  qed
qed

lemma page_str_no_from: "c \<in> set (page_str p) \<Longrightarrow> c \<notin> set ''[From''"
proof (rule page_char_not_from)
  assume "c \<in> set (page_str p)"
  with page_str_chars [of p] show "c \<in> set ''?-0123456789''" by blast
qed


lemma no_bracket_no_occurrence: "CHR ''['' \<notin> set s \<Longrightarrow> occurrences ''[From'' s = 0"
proof (induction s)
  case Nil
  then show ?case by simp
next
  case (Cons c cs)
  then have "CHR ''['' \<noteq> c" and "occurrences ''[From'' cs = 0" by simp_all
  then show ?case by simp
qed

lemma page_str_occurrences: "occurrences ''[From'' (page_str p) = 0"
proof (rule no_bracket_no_occurrence)
  show "CHR ''['' \<notin> set (page_str p)"
  proof
    assume "CHR ''['' \<in> set (page_str p)"
    then have "CHR ''['' \<notin> set ''[From''" by (rule page_str_no_from)
    then show False by simp
  qed
qed

lemma context_part_occurrences:
  "occurrences ''[From'' (context_part c) =
     1 + occurrences ''[From'' (case cm_book_title c of None \<Rightarrow> ''Unknown Book'' | Some t \<Rightarrow> t) +
     occurrences ''[From'' (cm_content c)"
proof -
  have a1: "occurrences ''[From'' (x @ newline) = occurrences ''[From'' x" for x
    using occurrences_append_hd [of newline "''[From''" x] by (simp add: newline_def)
  have a2: "occurrences ''[From'' ('']'' @ newline @ y) = occurrences ''[From'' y" for y
    by (simp add: newline_def)
  have a3: "occurrences ''[From'' (page_str p @ '']'' @ y) = occurrences ''[From'' ('']'' @ y)" for p y
    using occurrences_append_hd [of "'']'' @ y" "''[From''" "page_str p"]
    by (simp add: page_str_occurrences)
  have a4: "occurrences ''[From'' (''-'' @ y) = occurrences ''[From'' y" for y
    by simp
  have a5: "occurrences ''[From'' (page_str p @ ''-'' @ y) = occurrences ''[From'' (''-'' @ y)" for p y
    using occurrences_append_hd [of "''-'' @ y" "''[From''" "page_str p"]
    by (simp add: page_str_occurrences)
  have a6: "occurrences ''[From'' ('', pages '' @ y) = occurrences ''[From'' y" for y
    by simp
  have a7: "occurrences ''[From'' (t @ '', pages '' @ y) =
            occurrences ''[From'' t + occurrences ''[From'' ('', pages '' @ y)" for t y
    using occurrences_append_hd [of "'', pages '' @ y" "''[From''" t] by simp
  have a8: "occurrences ''[From'' (''[From '' @ y) = 1 + occurrences ''[From'' y" for y
    by simp
  show ?thesis
    unfolding context_part_def
    by (simp only: a8 a7 a6 a5 a4 a3 a2 a1)
qed

lemma py_join_occurrences:
  "occurrences ''[From'' (py_join newline parts) = sum_list (map (occurrences ''[From'') parts)"
proof (induction newline parts rule: py_join.induct)
  case 1
  then show ?case by simp
next
  case (2 x)
  then show ?case by simp
next
  case (3 x y rest)
  have "occurrences ''[From'' (x @ newline @ py_join newline (y # rest)) =
        occurrences ''[From'' x + occurrences ''[From'' (newline @ py_join newline (y # rest))"
    using occurrences_append_hd [of "newline @ py_join newline (y # rest)" "''[From''" x]
    by (simp add: newline_def)
  also have "occurrences ''[From'' (newline @ py_join newline (y # rest)) =
             occurrences ''[From'' (py_join newline (y # rest))"
    by (simp add: newline_def)
  finally show ?case using 3 by simp
qed

lemma context_occurrences:
  "occurrences ''[From'' (create_context_from_chunks chunks) =
     length chunks +
     sum_list (map (\<lambda>c. occurrences ''[From''
                             (case cm_book_title c of None \<Rightarrow> ''Unknown Book'' | Some t \<Rightarrow> t) +
                          occurrences ''[From'' (cm_content c)) chunks)"
  unfolding create_context_from_chunks_def py_join_occurrences
  by (induction chunks) (simp_all add: context_part_occurrences)

lemma chunks_retrieved_occurrences:
  "w_llm w (response_messages query context h) = Inr content \<Longrightarrow>
   rr_chunks_retrieved (generate_response w query context h) = int (occurrences ''[From'' context)"
  by (simp add: generate_response_def py_split_def py_split_from_length)

lemma clean_chunk_occurrences:
  assumes "\<not> sublist ''[From'' (cm_content c)"
    and "\<forall>t. cm_book_title c = Some t \<longrightarrow> \<not> sublist ''[From'' t"
  shows "occurrences ''[From'' (case cm_book_title c of None \<Rightarrow> ''Unknown Book'' | Some t \<Rightarrow> t) +
         occurrences ''[From'' (cm_content c) = 0"
proof -
  have "occurrences ''[From'' (cm_content c) = 0"
    using assms(1) by (rule occurrences_no_sublist)
  moreover have "occurrences ''[From'' (case cm_book_title c of None \<Rightarrow> ''Unknown Book'' | Some t \<Rightarrow> t) = 0"
  proof (cases "cm_book_title c")
    case None
    then show ?thesis by simp
  next
    case (Some t)
    with assms(2) have "\<not> sublist ''[From'' t" by blast
    then have "occurrences ''[From'' t = 0" by (rule occurrences_no_sublist)
    with Some show ?thesis by simp
  qed
  ultimately show ?thesis by simp
qed

lemma clean_context_occurrences:
  assumes "\<forall>c \<in> set chunks. \<not> sublist ''[From'' (cm_content c) \<and>
             (\<forall>t. cm_book_title c = Some t \<longrightarrow> \<not> sublist ''[From'' t)"
  shows "occurrences ''[From'' (create_context_from_chunks chunks) = length chunks"
proof -
  have "sum_list (map (\<lambda>c. occurrences ''[From''
                             (case cm_book_title c of None \<Rightarrow> ''Unknown Book'' | Some t \<Rightarrow> t) +
                          occurrences ''[From'' (cm_content c)) chunks) = 0"
    using assms
  proof (induction chunks)
    case Nil
    then show ?case by simp
  next
    case (Cons c cs)
    then have "occurrences ''[From'' (case cm_book_title c of None \<Rightarrow> ''Unknown Book'' | Some t \<Rightarrow> t) +
               occurrences ''[From'' (cm_content c) = 0"
      by (intro clean_chunk_occurrences) simp_all
    moreover from Cons have "sum_list (map (\<lambda>c. occurrences ''[From''
                             (case cm_book_title c of None \<Rightarrow> ''Unknown Book'' | Some t \<Rightarrow> t) +
                          occurrences ''[From'' (cm_content c)) cs) = 0"
      by simp
    ultimately show ?case by simp
  qed
  then show ?thesis by (simp only: context_occurrences add_0_right)
qed

lemma quoting_chunk_count:
  "occurrences ''[From'' (create_context_from_chunks [quoting_chunk]) = 2"
  unfolding context_occurrences
  by (simp add: quoting_chunk_def example_chunk_def)

lemma quoting_chunk_quotes: "sublist ''[From'' (cm_content quoting_chunk)"
proof -
  have "cm_content quoting_chunk = ''See '' @ ''[From'' @ '' Atoms, pages 1-2] for more.''"
    by (simp add: quoting_chunk_def)
  then show ?thesis by (simp only: sublist_appendI)
qed

text \<open>
  C10, as the code has it.  When the LLM invocation succeeds, the reported count
  \<^verbatim>\<open>chunks_retrieved\<close> is the number of occurrences of "[From" in the assembled
  context.  It equals the number of chunks whenever neither the content nor the book title
  of any chunk contains "[From".  There is a chunk list, with a content containing "[From",
  for which the reported count exceeds the number of chunks.
\<close>

theorem chunks_retrieved_counts_from_markers:
  "(w_llm w (response_messages query (create_context_from_chunks chunks) h) = Inr content \<longrightarrow>
      rr_chunks_retrieved (generate_response w query (create_context_from_chunks chunks) h) =
        int (occurrences ''[From'' (create_context_from_chunks chunks)) \<and>
      ((\<forall>c \<in> set chunks. \<not> sublist ''[From'' (cm_content c) \<and>
                           (\<forall>t. cm_book_title c = Some t \<longrightarrow> \<not> sublist ''[From'' t)) \<longrightarrow>
       rr_chunks_retrieved (generate_response w query (create_context_from_chunks chunks) h) =
         int (length chunks))) \<and>
   (\<exists>w' q cs h'. (\<exists>c \<in> set cs. sublist ''[From'' (cm_content c)) \<and>
        int (length cs) <
          rr_chunks_retrieved (generate_response w' q (create_context_from_chunks cs) h'))"
proof (intro conjI impI)
  assume llm: "w_llm w (response_messages query (create_context_from_chunks chunks) h) = Inr content"
  show "rr_chunks_retrieved (generate_response w query (create_context_from_chunks chunks) h) =
        int (occurrences ''[From'' (create_context_from_chunks chunks))"
    using llm by (rule chunks_retrieved_occurrences)
next
  assume llm: "w_llm w (response_messages query (create_context_from_chunks chunks) h) = Inr content"
    and clean: "\<forall>c \<in> set chunks. \<not> sublist ''[From'' (cm_content c) \<and>
                           (\<forall>t. cm_book_title c = Some t \<longrightarrow> \<not> sublist ''[From'' t)"
  show "rr_chunks_retrieved (generate_response w query (create_context_from_chunks chunks) h) =
         int (length chunks)"
    unfolding chunks_retrieved_occurrences [OF llm] clean_context_occurrences [OF clean]
    by (rule refl)
next
  have llm: "w_llm example_world (response_messages ''q'' (create_context_from_chunks [quoting_chunk]) []) =
             Inr ''- Rome is old''"
    by (simp add: example_world_def)
  have "int (length [quoting_chunk]) <
        rr_chunks_retrieved
          (generate_response example_world ''q'' (create_context_from_chunks [quoting_chunk]) [])"
    unfolding chunks_retrieved_occurrences [OF llm] quoting_chunk_count by simp
  moreover have "\<exists>c \<in> set [quoting_chunk]. sublist ''[From'' (cm_content c)"
    using quoting_chunk_quotes by simp
  ultimately show "\<exists>w' q cs h'. (\<exists>c \<in> set cs. sublist ''[From'' (cm_content c)) \<and>
        int (length cs) <
          rr_chunks_retrieved (generate_response w' q (create_context_from_chunks cs) h')"
    by blast
qed

theorem chunks_retrieved_counts_from_markers_witness:
  "rr_chunks_retrieved
     (generate_response example_world ''When?''
        (create_context_from_chunks
           [example_chunk, example_chunk\<lparr> cm_book_title := Some ''Origins'' \<rparr>]) []) = 2"
proof -
  let ?cs = "[example_chunk, example_chunk\<lparr> cm_book_title := Some ''Origins'' \<rparr>]"
  have llm: "w_llm example_world (response_messages ''When?'' (create_context_from_chunks ?cs) []) =
             Inr ''- Rome is old''"
    by (simp add: example_world_def)
  have c: "\<not> sublist ''[From'' ''Rome was founded in 753 BC.''"
    by (simp add: sublist_Cons_right)
  have o: "\<not> sublist ''[From'' ''Origins''"
    by (simp add: sublist_Cons_right)
  have clean: "\<forall>c \<in> set ?cs. \<not> sublist ''[From'' (cm_content c) \<and>
                 (\<forall>t. cm_book_title c = Some t \<longrightarrow> \<not> sublist ''[From'' t)"
    using c o by (simp add: example_chunk_def)
  from chunks_retrieved_counts_from_markers
         [of example_world "''When?''" ?cs "[]" "''- Rome is old''", THEN conjunct1, THEN mp, OF llm,
          THEN conjunct2, THEN mp, OF clean]
  show ?thesis by simp
qed

text \<open>
  Contents free of "[From" do not make the count exact by themselves: a chunk whose
  content is free of it but whose book title contains it is one chunk, reported as two.
\<close>

theorem chunks_retrieved_counterexample:
  "\<not> sublist ''[From'' (cm_content titled_chunk) \<and>
   int (length [titled_chunk]) = 1 \<and>
   rr_chunks_retrieved
     (generate_response example_world ''When?'' (create_context_from_chunks [titled_chunk]) []) = 2"
proof -
  have llm: "w_llm example_world (response_messages ''When?'' (create_context_from_chunks [titled_chunk]) []) =
             Inr ''- Rome is old''"
    by (simp add: example_world_def)
  have c: "\<not> sublist ''[From'' (cm_content titled_chunk)"
    by (simp add: titled_chunk_def example_chunk_def sublist_Cons_right)
  have "occurrences ''[From'' (create_context_from_chunks [titled_chunk]) = 2"
    unfolding context_occurrences
    by (simp add: titled_chunk_def example_chunk_def)
  then have "rr_chunks_retrieved
     (generate_response example_world ''When?'' (create_context_from_chunks [titled_chunk]) []) = 2"
    unfolding chunks_retrieved_occurrences [OF llm] by simp
  with c show ?thesis by simp
qed

section \<open>Properties of the message sequence\<close>

lemma format_chat_history_loop_concat:
  "format_chat_history_loop h acc =
     acc @ concat (map (\<lambda>m. [\<lparr> he_role = ''user'', he_content = msg_user_message m \<rparr>,
                                \<lparr> he_role = ''assistant'', he_content = msg_assistant_response m \<rparr>]) h)"
  by (induction h arbitrary: acc) simp_all

lemma format_chat_history_concat:
  "format_chat_history h =
     concat (map (\<lambda>m. [\<lparr> he_role = ''user'', he_content = msg_user_message m \<rparr>,
                         \<lparr> he_role = ''assistant'', he_content = msg_assistant_response m \<rparr>]) h)"
  by (simp add: format_chat_history_def format_chat_history_loop_concat)

lemma format_chat_history_length: "length (format_chat_history h) = 2 * length h"
  by (induction h) (simp_all add: format_chat_history_concat)

lemma turn_history_rows:
  "turn_history w s req =
     (if w_fails w (ReqChatHistory (req_notebook_id req) 10) then []
      else take 10 (sort_key msg_timestamp
             (filter (\<lambda>m. msg_notebook_id m = req_notebook_id req) (st_chat_messages s))))"
  by (simp add: turn_history_def get_chat_history_def)

lemma format_chat_history_append:
  "format_chat_history (p @ q) = format_chat_history p @ format_chat_history q"
  by (simp add: format_chat_history_concat)

lemma last_three_block:
  assumes "h = p @ [x, y, z]"
  shows "drop (length (format_chat_history h) - 5) (format_chat_history h) =
           [\<lparr> he_role = ''assistant'', he_content = msg_assistant_response x \<rparr>,
            \<lparr> he_role = ''user'', he_content = msg_user_message y \<rparr>,
            \<lparr> he_role = ''assistant'', he_content = msg_assistant_response y \<rparr>,
            \<lparr> he_role = ''user'', he_content = msg_user_message z \<rparr>,
            \<lparr> he_role = ''assistant'', he_content = msg_assistant_response z \<rparr>]"
proof -
  have tail: "format_chat_history [x, y, z] =
           [\<lparr> he_role = ''user'', he_content = msg_user_message x \<rparr>,
            \<lparr> he_role = ''assistant'', he_content = msg_assistant_response x \<rparr>,
            \<lparr> he_role = ''user'', he_content = msg_user_message y \<rparr>,
            \<lparr> he_role = ''assistant'', he_content = msg_assistant_response y \<rparr>,
            \<lparr> he_role = ''user'', he_content = msg_user_message z \<rparr>,
            \<lparr> he_role = ''assistant'', he_content = msg_assistant_response z \<rparr>]"
    by (simp add: format_chat_history_concat)
  have len: "length (format_chat_history h) - 5 = length (format_chat_history p) + 1"
    unfolding assms by (simp add: format_chat_history_length)
  show ?thesis
    unfolding len unfolding assms format_chat_history_append tail by simp
qed

lemma few_turns_block:
  assumes "length h \<le> 2"
  shows "drop (length (format_chat_history h) - 5) (format_chat_history h) = format_chat_history h"
  using assms by (simp add: format_chat_history_length)

lemma turn_messages_block:
  "turn_messages w s req chunks =
     [SystemMessage system_prompt] @
     map history_message
       (drop (length (format_chat_history (turn_history w s req)) - 5)
          (format_chat_history (turn_history w s req))) @
     [HumanMessage (query_with_context (req_message req) (create_context_from_chunks chunks))]"
  by (simp add: turn_messages_def response_messages_def last5_def)

lemma turn_answer_llm:
  "turn_answer w s req chunks =
     (case w_llm w (turn_messages w s req chunks) of Inr content \<Rightarrow> content | Inl e \<Rightarrow> apology)"
  by (simp add: turn_answer_def turn_messages_def turn_history_def generate_response_def
        split: sum.split)

lemma process_chat_answer:
  assumes "retrieve_chunks w s0 req = (Retrieved nb chunks, s)"
  shows "\<exists>r. fst (process_chat w s0 req) = Inr r \<and>
           resp_response r =
             (if w_fails w (ReqInsertChatMessage (turn_message w s req chunks)) then apology
              else turn_answer w s req chunks)"
proof (cases "w_fails w (ReqInsertChatMessage (turn_message w s req chunks))")
  case True
  have "fst (answer_turn w s req nb chunks) = Inl (ProviderError ''insert'')"
    unfolding answer_turn_cases if_P [OF True] by (rule fst_conv)
  then show ?thesis
    using True by (simp add: process_chat_def process_chat_try_def assms split_beta)
next
  case False
  have "fst (answer_turn w s req nb chunks) =
          Inr \<lparr> resp_response = turn_answer w s req chunks,
                 resp_citations = extract_citations chunks,
                 resp_memory_summary =
                   chat_update_notebook_memory w nb (req_message req) (turn_answer w s req chunks),
                 resp_key_facts =
                   extract_key_facts w (req_message req) (turn_answer w s req chunks) \<rparr>"
    unfolding answer_turn_cases if_not_P [OF False] by (rule fst_conv)
  then show ?thesis
    using False by (simp add: process_chat_def process_chat_try_def assms split_beta)
qed

lemma retrieve_chunks_chat_messages:
  assumes "retrieve_chunks w s0 req = (x, s)"
  shows "st_chat_messages s = st_chat_messages s0"
  using retrieve_chunks_tables(3) [of w s0 req] assms by simp

lemma example_turn_history:
  "st_chat_messages s = st_chat_messages example_store \<Longrightarrow>
   turn_history example_world s example_request =
     [] @ [example_turn ''1'' 1, example_turn ''2'' 2, example_turn ''3'' 3]"
  by (simp add: turn_history_rows example_world_def example_store_def example_request_def
        example_turn_def)

text \<open>
  C3, as the code has it.  The history of a turn is what the history request returns: the
  first ten chat messages of the notebook in ascending order of their timestamps, and none
  when the request fails.  Formatted, it lists turn by turn a user-role entry and an
  assistant-role entry.  The sequence handed to the LLM holds, between the system
  instruction and the current query, the last five entries of the formatted history, or
  all of them when there are fewer: with three or more turns these are the assistant entry
  of the third last turn and both entries of the last two turns.  A user-role entry is
  sent as a human message.  The answer of the turn is the reply of the LLM to this
  sequence, or the apology, and it is the response text of the turn unless saving the chat
  message raises.
\<close>

theorem history_block_is_last_five_messages:
  "turn_history w s req =
     (if w_fails w (ReqChatHistory (req_notebook_id req) 10) then []
      else take 10 (sort_key msg_timestamp
             (filter (\<lambda>m. msg_notebook_id m = req_notebook_id req) (st_chat_messages s)))) \<and>
   format_chat_history (turn_history w s req) =
     concat (map (\<lambda>m. [\<lparr> he_role = ''user'', he_content = msg_user_message m \<rparr>,
                         \<lparr> he_role = ''assistant'', he_content = msg_assistant_response m \<rparr>])
               (turn_history w s req)) \<and>
   turn_messages w s req chunks =
     [SystemMessage system_prompt] @
     map history_message
       (drop (length (format_chat_history (turn_history w s req)) - 5)
          (format_chat_history (turn_history w s req))) @
     [HumanMessage (query_with_context (req_message req) (create_context_from_chunks chunks))] \<and>
   length (drop (length (format_chat_history (turn_history w s req)) - 5)
             (format_chat_history (turn_history w s req))) =
     min 5 (2 * length (turn_history w s req)) \<and>
   (length (turn_history w s req) \<le> 2 \<longrightarrow>
      drop (length (format_chat_history (turn_history w s req)) - 5)
        (format_chat_history (turn_history w s req)) =
      format_chat_history (turn_history w s req)) \<and>
   (\<forall>p x y z. turn_history w s req = p @ [x, y, z] \<longrightarrow>
      drop (length (format_chat_history (turn_history w s req)) - 5)
        (format_chat_history (turn_history w s req)) =
        [\<lparr> he_role = ''assistant'', he_content = msg_assistant_response x \<rparr>,
         \<lparr> he_role = ''user'', he_content = msg_user_message y \<rparr>,
         \<lparr> he_role = ''assistant'', he_content = msg_assistant_response y \<rparr>,
         \<lparr> he_role = ''user'', he_content = msg_user_message z \<rparr>,
         \<lparr> he_role = ''assistant'', he_content = msg_assistant_response z \<rparr>]) \<and>
   history_message \<lparr> he_role = ''user'', he_content = t \<rparr> = HumanMessage t \<and>
   turn_answer w s req chunks =
     (case w_llm w (turn_messages w s req chunks) of Inr content \<Rightarrow> content | Inl e \<Rightarrow> apology) \<and>
   (\<forall>s0 nb. retrieve_chunks w s0 req = (Retrieved nb chunks, s) \<longrightarrow>
      st_chat_messages s = st_chat_messages s0 \<and>
      (\<exists>r. fst (process_chat w s0 req) = Inr r \<and>
           resp_response r =
             (if w_fails w (ReqInsertChatMessage (turn_message w s req chunks)) then apology
              else turn_answer w s req chunks)))"
proof (intro conjI allI impI)
  show "turn_history w s req =
     (if w_fails w (ReqChatHistory (req_notebook_id req) 10) then []
      else take 10 (sort_key msg_timestamp
             (filter (\<lambda>m. msg_notebook_id m = req_notebook_id req) (st_chat_messages s))))"
    by (rule turn_history_rows)
  show "format_chat_history (turn_history w s req) =
     concat (map (\<lambda>m. [\<lparr> he_role = ''user'', he_content = msg_user_message m \<rparr>,
                         \<lparr> he_role = ''assistant'', he_content = msg_assistant_response m \<rparr>])
               (turn_history w s req))"
    by (rule format_chat_history_concat)
  show "turn_messages w s req chunks =
     [SystemMessage system_prompt] @
     map history_message
       (drop (length (format_chat_history (turn_history w s req)) - 5)
          (format_chat_history (turn_history w s req))) @
     [HumanMessage (query_with_context (req_message req) (create_context_from_chunks chunks))]"
    by (rule turn_messages_block)
  show "length (drop (length (format_chat_history (turn_history w s req)) - 5)
             (format_chat_history (turn_history w s req))) =
     min 5 (2 * length (turn_history w s req))"
    by (simp add: format_chat_history_length)
  show "history_message \<lparr> he_role = ''user'', he_content = t \<rparr> = HumanMessage t"
    by (simp add: history_message_def)
  show "turn_answer w s req chunks =
     (case w_llm w (turn_messages w s req chunks) of Inr content \<Rightarrow> content | Inl e \<Rightarrow> apology)"
    by (rule turn_answer_llm)
next
  assume "length (turn_history w s req) \<le> 2"
  then show "drop (length (format_chat_history (turn_history w s req)) - 5)
        (format_chat_history (turn_history w s req)) =
      format_chat_history (turn_history w s req)"
    by (rule few_turns_block)
next
  fix p x y z assume "turn_history w s req = p @ [x, y, z]"
  then show "drop (length (format_chat_history (turn_history w s req)) - 5)
        (format_chat_history (turn_history w s req)) =
        [\<lparr> he_role = ''assistant'', he_content = msg_assistant_response x \<rparr>,
         \<lparr> he_role = ''user'', he_content = msg_user_message y \<rparr>,
         \<lparr> he_role = ''assistant'', he_content = msg_assistant_response y \<rparr>,
         \<lparr> he_role = ''user'', he_content = msg_user_message z \<rparr>,
         \<lparr> he_role = ''assistant'', he_content = msg_assistant_response z \<rparr>]"
    by (rule last_three_block)
next
  fix s0 nb assume r: "retrieve_chunks w s0 req = (Retrieved nb chunks, s)"
  then show "st_chat_messages s = st_chat_messages s0"
    by (rule retrieve_chunks_chat_messages)
  from r show "\<exists>r. fst (process_chat w s0 req) = Inr r \<and>
           resp_response r =
             (if w_fails w (ReqInsertChatMessage (turn_message w s req chunks)) then apology
              else turn_answer w s req chunks)"
    by (rule process_chat_answer)
qed

theorem history_block_is_last_five_messages_witness:
  "drop (length (format_chat_history
                   (turn_history example_world
                      (snd (retrieve_chunks example_world example_store example_request))
                      example_request)) - 5)
     (format_chat_history
        (turn_history example_world
           (snd (retrieve_chunks example_world example_store example_request)) example_request)) =
     [\<lparr> he_role = ''assistant'', he_content = ''a1'' \<rparr>,
      \<lparr> he_role = ''user'', he_content = ''q2'' \<rparr>,
      \<lparr> he_role = ''assistant'', he_content = ''a2'' \<rparr>,
      \<lparr> he_role = ''user'', he_content = ''q3'' \<rparr>,
      \<lparr> he_role = ''assistant'', he_content = ''a3'' \<rparr>] \<and>
   resp_response (projr (fst (process_chat example_world example_store example_request))) =
     ''- Rome is old''"
proof -
  let ?s = "snd (retrieve_chunks example_world example_store example_request)"
  let ?cs = "[example_chunk\<lparr> cm_book_title := Some ''Origins'', cm_book_author := Some ''Ann'' \<rparr>]"
  have r: "retrieve_chunks example_world example_store example_request =
             (Retrieved example_notebook ?cs, ?s)"
    by (simp add: example_retrieve_answering)
  have m: "st_chat_messages ?s = st_chat_messages example_store"
    by (rule retrieve_chunks_tables(3))
  note h = example_turn_history [OF m]
  note inst = history_block_is_last_five_messages [of example_world ?s example_request ?cs]
  note three = inst [THEN conjunct2, THEN conjunct2, THEN conjunct2, THEN conjunct2, THEN conjunct2,
                    THEN conjunct1, rule_format, OF h]
  note turn = inst [THEN conjunct2, THEN conjunct2, THEN conjunct2, THEN conjunct2, THEN conjunct2,
                   THEN conjunct2, THEN conjunct2, THEN conjunct2, rule_format, OF r]
  note ans = inst [THEN conjunct2, THEN conjunct2, THEN conjunct2, THEN conjunct2, THEN conjunct2,
                  THEN conjunct2, THEN conjunct2, THEN conjunct1]
  have ok: "\<not> w_fails example_world x" for x
    by (simp add: example_world_def)
  have llm: "w_llm example_world msgs = Inr ''- Rome is old''" for msgs
    by (simp add: example_world_def)
  from ans have a: "turn_answer example_world ?s example_request ?cs = ''- Rome is old''"
    by (simp add: llm)
  from turn obtain r' where "fst (process_chat example_world example_store example_request) = Inr r'"
    and "resp_response r' = turn_answer example_world ?s example_request ?cs"
    by (auto simp add: ok)
  then have "resp_response (projr (fst (process_chat example_world example_store example_request))) =
     ''- Rome is old''"
    by (simp add: a)
  moreover from three have "drop (length (format_chat_history (turn_history example_world ?s example_request)) - 5)
     (format_chat_history (turn_history example_world ?s example_request)) =
     [\<lparr> he_role = ''assistant'', he_content = ''a1'' \<rparr>,
      \<lparr> he_role = ''user'', he_content = ''q2'' \<rparr>,
      \<lparr> he_role = ''assistant'', he_content = ''a2'' \<rparr>,
      \<lparr> he_role = ''user'', he_content = ''q3'' \<rparr>,
      \<lparr> he_role = ''assistant'', he_content = ''a3'' \<rparr>]"
    by (simp add: example_turn_def)
  ultimately show ?thesis by simp
qed

text \<open>
  The block does not hold whole turns: in the turn of the example request, on a notebook
  with three stored turns and one chunk retrieved, it has five messages and starts with
  the answer of the first turn, where the last five turns, here all three, would give six.
\<close>

theorem history_block_counterexample:
  "fst (retrieve_chunks example_world example_store example_request) =
     Retrieved example_notebook
       [example_chunk\<lparr> cm_book_title := Some ''Origins'', cm_book_author := Some ''Ann'' \<rparr>] \<and>
   turn_history example_world
     (snd (retrieve_chunks example_world example_store example_request)) example_request =
     [example_turn ''1'' 1, example_turn ''2'' 2, example_turn ''3'' 3] \<and>
   turn_messages example_world
     (snd (retrieve_chunks example_world example_store example_request)) example_request
     [example_chunk\<lparr> cm_book_title := Some ''Origins'', cm_book_author := Some ''Ann'' \<rparr>] =
     [SystemMessage system_prompt,
      SystemMessage ''a1'', HumanMessage ''q2'', SystemMessage ''a2'',
      HumanMessage ''q3'', SystemMessage ''a3'',
      HumanMessage
        (query_with_context ''When?''
           (create_context_from_chunks
              [example_chunk\<lparr> cm_book_title := Some ''Origins'', cm_book_author := Some ''Ann'' \<rparr>]))] \<and>
   turn_messages example_world
     (snd (retrieve_chunks example_world example_store example_request)) example_request
     [example_chunk\<lparr> cm_book_title := Some ''Origins'', cm_book_author := Some ''Ann'' \<rparr>] \<noteq>
   turnwise_response_messages ''When?''
     (create_context_from_chunks
        [example_chunk\<lparr> cm_book_title := Some ''Origins'', cm_book_author := Some ''Ann'' \<rparr>])
     [example_turn ''1'' 1, example_turn ''2'' 2, example_turn ''3'' 3]"
proof -
  let ?s = "snd (retrieve_chunks example_world example_store example_request)"
  let ?cs = "[example_chunk\<lparr> cm_book_title := Some ''Origins'', cm_book_author := Some ''Ann'' \<rparr>]"
  have r: "fst (retrieve_chunks example_world example_store example_request) =
             Retrieved example_notebook ?cs"
    unfolding example_retrieve_answering by (rule fst_conv)
  have "st_chat_messages ?s = st_chat_messages example_store"
    by (rule retrieve_chunks_tables(3))
  then have h: "turn_history example_world ?s example_request =
     [example_turn ''1'' 1, example_turn ''2'' 2, example_turn ''3'' 3]"
    using example_turn_history [of ?s] by simp
  have q: "req_message example_request = ''When?''"
    by (simp add: example_request_def)
  have m: "turn_messages example_world ?s example_request ?cs =
     [SystemMessage system_prompt,
      SystemMessage ''a1'', HumanMessage ''q2'', SystemMessage ''a2'',
      HumanMessage ''q3'', SystemMessage ''a3'',
      HumanMessage (query_with_context ''When?'' (create_context_from_chunks ?cs))]"
    unfolding turn_messages_block h q
    by (simp add: format_chat_history_concat example_turn_def history_message_def)
  have "length (turnwise_response_messages ''When?'' (create_context_from_chunks ?cs)
     [example_turn ''1'' 1, example_turn ''2'' 2, example_turn ''3'' 3]) = 8"
    by (simp add: turnwise_response_messages_def last5_def format_chat_history_length)
  moreover have "length (turn_messages example_world ?s example_request ?cs) = 7"
    unfolding m by simp
  ultimately have "turn_messages example_world ?s example_request ?cs \<noteq>
   turnwise_response_messages ''When?'' (create_context_from_chunks ?cs)
     [example_turn ''1'' 1, example_turn ''2'' 2, example_turn ''3'' 3]"
    by auto
  with r h m show ?thesis by (simp only: simp_thms)
qed

section \<open>Properties of the key facts\<close>

text \<open>Lines that start with a hyphen or with the bullet are kept, stripped; others are not.\<close>

lemma extract_key_facts_bullet:
  "extract_key_facts bullet_world ''q'' ''a'' = [''- one'', bullet # '' two'']"
  by (simp add: extract_key_facts_def bullet_world_def py_split_def newline_def py_strip_def
        py_isspace_def bullet_def)

end
